theory Spec2Isabelle
  imports Complex_Main
begin

text \<open>
  A model of the order intake of the 3D printing shop: the order schema, the in-memory store,
  the estimator that prices an upload by its size, and the three routes. Each function of
  the source is a definition of the same name; what a function reads from its environment
  (the random identifier, the clock, the mail service, the printing of doubles) is an
  argument.
\<close>

section \<open>Order data model (shared/schema.ts)\<close>

text \<open>
  The \<open>orders\<close> table and the type \<open>Order\<close> inferred from it. Text and decimal columns are
  strings; a column that is not declared \<open>notNull\<close> is nullable, so its field is an
  \<open>option\<close> with \<open>None\<close> for \<open>null\<close>. Timestamps are milliseconds since the epoch.
  The field \<open>id\<close> is written \<open>id'\<close>, since \<open>id\<close> is the identity function of HOL.
\<close>

record Order =
  id' :: string
  customerName :: string
  customerPhone :: string
  deliveryMethod :: string
  streetAddress :: "string option"
  city :: "string option"
  state :: "string option"
  zipCode :: "string option"
  modelFileName :: "string option"
  modelWeight :: "string option"
  printTime :: "string option"
  baseCost :: "string option"
  supportRemoval :: "bool option"
  supportCost :: "string option"
  totalCost :: "string option"
  status :: "string option"
  createdAt :: "nat option"
  updatedAt :: "nat option"

text \<open>
  \<open>InsertOrder\<close>, the type inferred from \<open>insertOrderSchema\<close>: the table's columns without
  \<open>id\<close>, \<open>createdAt\<close> and \<open>updatedAt\<close>. An optional field is \<open>None\<close> when the property is
  \<open>undefined\<close> or \<open>null\<close>; the code reads these fields only through \<open>||\<close>, which treats
  both alike.
\<close>

record InsertOrder =
  ins_customerName :: string
  ins_customerPhone :: string
  ins_deliveryMethod :: string
  ins_streetAddress :: "string option"
  ins_city :: "string option"
  ins_state :: "string option"
  ins_zipCode :: "string option"
  ins_modelFileName :: "string option"
  ins_modelWeight :: "string option"
  ins_printTime :: "string option"
  ins_baseCost :: "string option"
  ins_supportRemoval :: "bool option"
  ins_supportCost :: "string option"
  ins_totalCost :: "string option"
  ins_status :: "string option"

text \<open>
  \<open>Partial<Order>\<close>, the patch of \<open>updateOrder\<close>: every property of \<open>Order\<close> may be
  absent (\<open>None\<close>) or present with a value of the field's type (\<open>Some v\<close>, where \<open>v\<close>
  itself may be \<open>null\<close> for a nullable field).
\<close>

record OrderPatch =
  upd_id :: "string option"
  upd_customerName :: "string option"
  upd_customerPhone :: "string option"
  upd_deliveryMethod :: "string option"
  upd_streetAddress :: "string option option"
  upd_city :: "string option option"
  upd_state :: "string option option"
  upd_zipCode :: "string option option"
  upd_modelFileName :: "string option option"
  upd_modelWeight :: "string option option"
  upd_printTime :: "string option option"
  upd_baseCost :: "string option option"
  upd_supportRemoval :: "bool option option"
  upd_supportCost :: "string option option"
  upd_totalCost :: "string option option"
  upd_status :: "string option option"
  upd_createdAt :: "nat option option"
  upd_updatedAt :: "nat option option"

section \<open>The in-memory store (server/storage.ts)\<close>

text \<open>
  \<open>MemStorage.orders\<close> is a \<open>Map<string, Order>\<close>. Every method takes the map and
  returns the new one with its result. \<open>randomUUID()\<close> and \<open>new Date()\<close> read the
  environment, so the identifier and the time are arguments.
\<close>

type_synonym MemStorage = "string \<rightharpoonup> Order"

text \<open>\<open>x || null\<close> on an optional string: \<open>undefined\<close>, \<open>null\<close> and \<open>""\<close> are falsy.\<close>

definition or_null :: "string option \<Rightarrow> string option" where
  "or_null x = (case x of None \<Rightarrow> None | Some s \<Rightarrow> if s = [] then None else Some s)"

text \<open>\<open>x || d\<close> with a string default.\<close>

definition or_string :: "string option \<Rightarrow> string \<Rightarrow> string" where
  "or_string x d = (case x of None \<Rightarrow> d | Some s \<Rightarrow> if s = [] then d else s)"

text \<open>\<open>x || false\<close> on an optional boolean.\<close>

definition or_false :: "bool option \<Rightarrow> bool" where
  "or_false x = (case x of None \<Rightarrow> False | Some b \<Rightarrow> b)"

definition getOrder :: "MemStorage \<Rightarrow> string \<Rightarrow> Order option" where
  "getOrder orders i = orders i"

definition createOrder :: "MemStorage \<Rightarrow> string \<Rightarrow> nat \<Rightarrow> InsertOrder \<Rightarrow> Order \<times> MemStorage" where
  "createOrder orders uuid now insertOrder =
     (let order = \<lparr>
        id' = uuid,
        customerName = ins_customerName insertOrder,
        customerPhone = ins_customerPhone insertOrder,
        deliveryMethod = ins_deliveryMethod insertOrder,
        streetAddress = or_null (ins_streetAddress insertOrder),
        city = or_null (ins_city insertOrder),
        state = or_null (ins_state insertOrder),
        zipCode = or_null (ins_zipCode insertOrder),
        modelFileName = or_null (ins_modelFileName insertOrder),
        modelWeight = or_null (ins_modelWeight insertOrder),
        printTime = or_null (ins_printTime insertOrder),
        baseCost = or_null (ins_baseCost insertOrder),
        supportRemoval = Some (or_false (ins_supportRemoval insertOrder)),
        supportCost = Some (or_string (ins_supportCost insertOrder) ''0.00''),
        totalCost = or_null (ins_totalCost insertOrder),
        status = Some ''pending'',
        createdAt = Some now,
        updatedAt = Some now \<rparr>
      in (order, orders(uuid \<mapsto> order)))"

text \<open>
  One property of the object spread \<open>{...existingOrder, ...updates}\<close>: a property present
  in the patch replaces the stored one, an absent one leaves it.
\<close>

definition spread :: "'a \<Rightarrow> 'a option \<Rightarrow> 'a" where
  "spread old new = (case new of None \<Rightarrow> old | Some v \<Rightarrow> v)"

definition merge_updates :: "Order \<Rightarrow> OrderPatch \<Rightarrow> nat \<Rightarrow> Order" where
  "merge_updates existingOrder updates now = \<lparr>
     id' = spread (id' existingOrder) (upd_id updates),
     customerName = spread (customerName existingOrder) (upd_customerName updates),
     customerPhone = spread (customerPhone existingOrder) (upd_customerPhone updates),
     deliveryMethod = spread (deliveryMethod existingOrder) (upd_deliveryMethod updates),
     streetAddress = spread (streetAddress existingOrder) (upd_streetAddress updates),
     city = spread (city existingOrder) (upd_city updates),
     state = spread (state existingOrder) (upd_state updates),
     zipCode = spread (zipCode existingOrder) (upd_zipCode updates),
     modelFileName = spread (modelFileName existingOrder) (upd_modelFileName updates),
     modelWeight = spread (modelWeight existingOrder) (upd_modelWeight updates),
     printTime = spread (printTime existingOrder) (upd_printTime updates),
     baseCost = spread (baseCost existingOrder) (upd_baseCost updates),
     supportRemoval = spread (supportRemoval existingOrder) (upd_supportRemoval updates),
     supportCost = spread (supportCost existingOrder) (upd_supportCost updates),
     totalCost = spread (totalCost existingOrder) (upd_totalCost updates),
     status = spread (status existingOrder) (upd_status updates),
     createdAt = spread (createdAt existingOrder) (upd_createdAt updates),
     updatedAt = Some now \<rparr>"

definition updateOrder :: "MemStorage \<Rightarrow> string \<Rightarrow> OrderPatch \<Rightarrow> nat \<Rightarrow> Order option \<times> MemStorage" where
  "updateOrder orders i updates now =
     (case orders i of
        None \<Rightarrow> (None, orders)
      | Some existingOrder \<Rightarrow>
          (let updatedOrder = merge_updates existingOrder updates now
           in (Some updatedOrder, orders(i \<mapsto> updatedOrder))))"

text \<open>A sequence of \<open>updateOrder\<close> calls, each with its identifier, patch and time.\<close>

fun updateOrders :: "MemStorage \<Rightarrow> (string \<times> OrderPatch \<times> nat) list \<Rightarrow> MemStorage" where
  "updateOrders orders [] = orders"
| "updateOrders orders ((i, updates, now) # calls) =
     updateOrders (snd (updateOrder orders i updates now)) calls"

section \<open>The estimator (routes: analyze3DModel, formatPrintTime)\<close>

text \<open>
  The part of a multer file the routes read: \<open>originalname\<close> and \<open>size\<close> in bytes (written
  \<open>size'\<close>, since \<open>size\<close> is a constant of HOL).
\<close>

record MulterFile =
  originalname :: string
  size' :: nat

text \<open>
  The object \<open>analyze3DModel\<close> returns, \<open>{weight, printTime, baseCost}\<close>; two field names are
  primed because \<open>Order\<close> has fields of the same names.
\<close>

record ModelAnalysis =
  weight :: real
  printTime' :: string
  baseCost' :: real

text \<open>
  A JavaScript number is a double, and every finite double is a real number: the model
  computes with these reals. Up to the calls of \<open>toFixed\<close> the estimator divides by \<open>2^20\<close>,
  multiplies by \<open>20\<close>, \<open>15\<close>, \<open>10\<close>, \<open>1.5\<close> and \<open>0.25\<close> and adds small integers: on a size
  below \<open>2^45\<close> bytes every intermediate value is a multiple of \<open>2^-22\<close> with fewer than 53
  significant bits, so none of these operations rounds there and real arithmetic gives the
  same values (multer admits 50 MB). The quotient \<open>minutes / 60\<close> of \<open>formatPrintTime\<close> is
  rounded, by far less than the distance \<open>2^-21 / 60\<close> that a quotient below an integer keeps
  from it, so its floor is that of the real quotient; \<open>%\<close> is exact. \<open>parseFloat\<close> does
  round, and is modelled as it rounds.
\<close>

text \<open>The decimal digits of a non-negative integer, as a template literal prints it.\<close>

definition digit_char :: "nat \<Rightarrow> char" where
  "digit_char d = ''0123456789'' ! d"

function show_nat :: "nat \<Rightarrow> string" where
  "show_nat n = (if n < 10 then [digit_char n] else show_nat (n div 10) @ [digit_char (n mod 10)])"
  by pat_completeness auto
termination
  by (relation "measure (\<lambda>n. n)") auto

declare show_nat.simps [simp del]

definition show_int :: "int \<Rightarrow> string" where
  "show_int i = (if i < 0 then CHR ''-'' # show_nat (nat (- i)) else show_nat (nat i))"

text \<open>\<open>x % y\<close> on numbers: the remainder of the division truncated towards zero.\<close>

definition trunc :: "real \<Rightarrow> int" where
  "trunc x = (if 0 \<le> x then \<lfloor>x\<rfloor> else \<lceil>x\<rceil>)"

definition js_rem :: "real \<Rightarrow> real \<Rightarrow> real" where
  "js_rem x y = x - y * of_int (trunc (x / y))"

text \<open>
  The double nearest to a real number, ties to the even significand, as \<open>parseFloat\<close> reads
  a decimal: the number of binary digits of a natural number, the exponent \<open>e\<close> with
  \<open>2^e \<le> x < 2^(e+1)\<close> of a positive \<open>x\<close>, and rounding to a multiple of \<open>2^(e-52)\<close>
  (of \<open>2^-1074\<close> for a subnormal). A magnitude beyond the largest double, which \<open>parseFloat\<close>
  reads as \<open>Infinity\<close>, is outside the model.
\<close>

function bit_length :: "nat \<Rightarrow> nat" where
  "bit_length n = (if n = 0 then 0 else Suc (bit_length (n div 2)))"
  by pat_completeness auto
termination
  by (relation "measure (\<lambda>n. n)") auto

declare bit_length.simps [simp del]

definition binade :: "real \<Rightarrow> int" where
  "binade x =
     (if 1 \<le> x then int (bit_length (nat \<lfloor>x\<rfloor>)) - 1
      else - int (bit_length (nat (\<lceil>1 / x\<rceil> - 1))))"

definition round_half_even :: "real \<Rightarrow> int" where
  "round_half_even m =
     (let f = \<lfloor>m\<rfloor>; r = m - of_int f
      in if r < 1 / 2 then f
         else if 1 / 2 < r then f + 1
         else if even f then f else f + 1)"

definition to_double :: "real \<Rightarrow> real" where
  "to_double x =
     (if x = 0 then 0
      else (let q = 2 powi (max (binade \<bar>x\<bar>) (- 1022) - 52)
            in sgn x * (of_int (round_half_even (\<bar>x\<bar> / q)) * q)))"

text \<open>
  \<open>x.toFixed(2)\<close> of a non-negative \<open>x\<close> prints \<open>n / 100\<close> with two decimals, for the
  integer \<open>n\<close> with \<open>n / 100\<close> nearest to \<open>x\<close>, the larger one of two: \<open>n\<close> is \<open>cents x\<close>.
  A negative \<open>x\<close> is printed as \<open>-\<close> and the digits of \<open>-x\<close>. \<open>toFixed2\<close> is
  \<open>parseFloat(x.toFixed(2))\<close>, the double nearest to the printed decimal.
\<close>

definition cents :: "real \<Rightarrow> int" where
  "cents x = \<lfloor>x * 100 + 1 / 2\<rfloor>"

definition toFixed2 :: "real \<Rightarrow> real" where
  "toFixed2 x =
     (if x < 0 then - to_double (of_int (cents (- x)) / 100)
      else to_double (of_int (cents x) / 100))"

definition fileSizeMB :: "MulterFile \<Rightarrow> real" where
  "fileSizeMB file = of_nat (size' file) / (1024 * 1024)"

text \<open>The local \<open>estimatedWeight\<close> of \<open>analyze3DModel\<close>, as a function of \<open>fileSizeMB\<close>.\<close>

definition estimatedWeight :: "real \<Rightarrow> real" where
  "estimatedWeight mb =
     (if mb < 1 then max 5 (mb * 20)
      else if mb < 5 then 20 + (mb - 1) * 15
      else 80 + (mb - 5) * 10)"

text \<open>The local \<open>printTimeMinutes\<close>, from the estimated weight and \<open>fileSizeMB\<close>.\<close>

definition printTimeMinutes :: "real \<Rightarrow> real \<Rightarrow> real" where
  "printTimeMinutes w mb = max 30 (w * (3 / 2) + mb * 20)"

definition formatPrintTime :: "real \<Rightarrow> string" where
  "formatPrintTime minutes =
     (let hours = \<lfloor>minutes / 60\<rfloor>;
          mins = \<lfloor>js_rem minutes 60\<rfloor>
      in show_int hours @ ''h '' @ show_int mins @ ''m'')"

definition analyze3DModel :: "MulterFile \<Rightarrow> ModelAnalysis" where
  "analyze3DModel file =
     (let mb = fileSizeMB file;
          w = estimatedWeight mb;
          minutes = printTimeMinutes w mb
      in \<lparr> weight = toFixed2 w,
           printTime' = formatPrintTime minutes,
           baseCost' = toFixed2 (w * (1 / 4)) \<rparr>)"

section \<open>The routes (registerRoutes)\<close>

text \<open>
  \<open>req.body\<close> of a multipart request after multer: every text field of the form is a string,
  and a field the form does not send is \<open>undefined\<close> (\<open>None\<close>). Only the properties the
  schema knows are listed; \<open>parse\<close> drops any other.
\<close>

record OrderData =
  req_customerName :: "string option"
  req_customerPhone :: "string option"
  req_deliveryMethod :: "string option"
  req_streetAddress :: "string option"
  req_city :: "string option"
  req_state :: "string option"
  req_zipCode :: "string option"
  req_modelFileName :: "string option"
  req_modelWeight :: "string option"
  req_printTime :: "string option"
  req_baseCost :: "string option"
  req_supportRemoval :: "string option"
  req_supportCost :: "string option"
  req_totalCost :: "string option"
  req_status :: "string option"

text \<open>
  The issues of a \<open>ZodError\<close>, each with the field it is about: a required field is missing,
  a string is shorter than its minimum (with the schema's message), a value is not in the enum.
\<close>

datatype ZodIssue = Required string | TooSmall string string | InvalidEnum string

text \<open>
  \<open>insertOrderSchema\<close> (shared/schema.ts). The fields it checks are \<open>customerName\<close>
  (\<open>min(1)\<close>), \<open>customerPhone\<close> (\<open>min(10)\<close>) and \<open>deliveryMethod\<close> (the enum); every other
  field is an optional string, or has a default. The schema has no rule that relates two
  fields.
\<close>

definition insertOrderSchema_issues :: "OrderData \<Rightarrow> ZodIssue list" where
  "insertOrderSchema_issues d =
     (case req_customerName d of
        None \<Rightarrow> [Required ''customerName'']
      | Some s \<Rightarrow> if length s < 1 then [TooSmall ''customerName'' ''Customer name is required'']
                  else [])
     @ (case req_customerPhone d of
        None \<Rightarrow> [Required ''customerPhone'']
      | Some s \<Rightarrow> if length s < 10 then [TooSmall ''customerPhone'' ''Valid phone number is required'']
                  else [])
     @ (case req_deliveryMethod d of
        None \<Rightarrow> [Required ''deliveryMethod'']
      | Some m \<Rightarrow> if m = ''delivery'' \<or> m = ''meetup'' then [] else [InvalidEnum ''deliveryMethod''])"

text \<open>
  \<open>insertOrderSchema.parse({...orderData, supportRemoval: b})\<close>: the issues (\<open>parse\<close> throws
  a \<open>ZodError\<close>), or the validated object; \<open>supportCost\<close> gets its default \<open>"0.00"\<close> when
  the field is missing.
\<close>

definition insertOrderSchema_parse :: "OrderData \<Rightarrow> bool \<Rightarrow> ZodIssue list + InsertOrder" where
  "insertOrderSchema_parse d b =
     (case (req_customerName d, req_customerPhone d, req_deliveryMethod d) of
        (Some name, Some phone, Some method) \<Rightarrow>
          if insertOrderSchema_issues d = [] then
            Inr \<lparr> ins_customerName = name,
                  ins_customerPhone = phone,
                  ins_deliveryMethod = method,
                  ins_streetAddress = req_streetAddress d,
                  ins_city = req_city d,
                  ins_state = req_state d,
                  ins_zipCode = req_zipCode d,
                  ins_modelFileName = req_modelFileName d,
                  ins_modelWeight = req_modelWeight d,
                  ins_printTime = req_printTime d,
                  ins_baseCost = req_baseCost d,
                  ins_supportRemoval = Some b,
                  ins_supportCost = Some (case req_supportCost d of None \<Rightarrow> ''0.00'' | Some c \<Rightarrow> c),
                  ins_totalCost = req_totalCost d,
                  ins_status = req_status d \<rparr>
          else Inl (insertOrderSchema_issues d)
      | _ \<Rightarrow> Inl (insertOrderSchema_issues d))"

text \<open>Truthiness of an optional string: \<open>undefined\<close> and \<open>""\<close> are falsy.\<close>

definition truthy :: "string option \<Rightarrow> bool" where
  "truthy x = (case x of None \<Rightarrow> False | Some s \<Rightarrow> s \<noteq> [])"

text \<open>
  The block \<open>if (modelFile) { ... }\<close> of \<open>POST /api/orders\<close>, which fills the pricing fields
  of the validated order. The sum \<open>baseCost + supportCost\<close> is an addition of doubles and
  \<open>toString\<close> prints a double; neither is fixed here, both are arguments (\<open>num_add\<close>,
  \<open>num_toString\<close>).
\<close>

definition fill_analysis ::
  "(real \<Rightarrow> real \<Rightarrow> real) \<Rightarrow> (real \<Rightarrow> string) \<Rightarrow> OrderData \<Rightarrow> MulterFile option \<Rightarrow>
   InsertOrder \<Rightarrow> InsertOrder" where
  "fill_analysis num_add num_toString orderData modelFile validatedOrder =
     (case modelFile of
        None \<Rightarrow> validatedOrder
      | Some file \<Rightarrow>
          if truthy (req_modelWeight orderData) \<and> truthy (req_printTime orderData)
             \<and> truthy (req_baseCost orderData)
          then validatedOrder\<lparr>
                 ins_modelFileName := Some (originalname file),
                 ins_modelWeight := req_modelWeight orderData,
                 ins_printTime := req_printTime orderData,
                 ins_baseCost := req_baseCost orderData,
                 ins_supportCost := Some (or_string (req_supportCost orderData)
                    (if or_false (ins_supportRemoval validatedOrder) then ''5.00'' else ''0.00'')),
                 ins_totalCost := req_totalCost orderData \<rparr>
          else
            (let analysis = analyze3DModel file;
                 baseCost = baseCost' analysis;
                 supportCost = (if or_false (ins_supportRemoval validatedOrder) then 5 else 0);
                 totalCost = num_add baseCost supportCost
             in validatedOrder\<lparr>
                  ins_modelFileName := Some (originalname file),
                  ins_modelWeight := Some (num_toString (weight analysis)),
                  ins_printTime := Some (printTime' analysis),
                  ins_baseCost := Some (num_toString baseCost),
                  ins_supportCost := Some (num_toString supportCost),
                  ins_totalCost := Some (num_toString totalCost) \<rparr>))"

text \<open>What \<open>sendOrderEmail\<close> does: it resolves, or it throws.\<close>

datatype MailResult = Sent | MailError string

text \<open>
  A response is a status code and a JSON body: an order, \<open>{message: text}\<close>, or
  \<open>{message: m}\<close> with \<open>m\<close> the message of a \<open>ZodError\<close>, which is the JSON text of its issues.
\<close>

datatype Body = OrderBody Order | MessageBody string | IssuesBody "ZodIssue list"

text \<open>
  What a handler leaves behind: the response, the store, and the first argument of every
  \<open>console.error\<close> call it made.
\<close>

record RouteResult =
  response :: "nat \<times> Body"
  storage :: MemStorage
  errors_logged :: "string list"

text \<open>
  \<open>POST /api/orders\<close>. The mail collaborator is the argument \<open>sendOrderEmail\<close>; the identifier
  and the time are those \<open>createOrder\<close> draws.
\<close>

definition post_orders ::
  "(real \<Rightarrow> real \<Rightarrow> real) \<Rightarrow> (real \<Rightarrow> string) \<Rightarrow> (Order \<Rightarrow> MulterFile option \<Rightarrow> MailResult) \<Rightarrow>
   MemStorage \<Rightarrow> string \<Rightarrow> nat \<Rightarrow> OrderData \<Rightarrow> MulterFile option \<Rightarrow> RouteResult" where
  "post_orders num_add num_toString sendOrderEmail orders uuid now orderData modelFile =
     (case insertOrderSchema_parse orderData (req_supportRemoval orderData = Some ''true'') of
        Inl issues \<Rightarrow>
          \<lparr> response = (400, IssuesBody issues),
            storage = orders,
            errors_logged = [''Order creation error:''] \<rparr>
      | Inr validatedOrder \<Rightarrow>
          (let filled = fill_analysis num_add num_toString orderData modelFile validatedOrder;
               (order, orders') = createOrder orders uuid now filled
           in \<lparr> response = (200, OrderBody order),
                storage = orders',
                errors_logged =
                  (case sendOrderEmail order modelFile of
                     Sent \<Rightarrow> []
                   | MailError e \<Rightarrow> [''Failed to send email:'']) \<rparr>))"

text \<open>\<open>GET /api/orders/:id\<close>. \<open>MemStorage.getOrder\<close> does not throw, so the 500 branch is not reached.\<close>

definition get_order_by_id :: "MemStorage \<Rightarrow> string \<Rightarrow> nat \<times> Body" where
  "get_order_by_id orders i =
     (case getOrder orders i of
        None \<Rightarrow> (404, MessageBody ''Order not found'')
      | Some order \<Rightarrow> (200, OrderBody order))"

section \<open>The client form (components/order-form.tsx)\<close>

text \<open>
  The values the form validates before it posts: \<open>orderFormSchema\<close>, the same field rules as
  \<open>insertOrderSchema\<close> and a refinement that relates the delivery method and the address.
\<close>

datatype DeliveryMethod = Delivery | Meetup

record OrderFormData =
  form_customerName :: string
  form_customerPhone :: string
  form_deliveryMethod :: DeliveryMethod
  form_streetAddress :: "string option"
  form_city :: "string option"
  form_state :: "string option"
  form_zipCode :: "string option"
  form_supportRemoval :: bool

text \<open>
  The messages \<open>orderFormSchema\<close> reports on values of the form's type: those of the two
  string rules, then that of the refinement.
\<close>

definition orderFormSchema_issues :: "OrderFormData \<Rightarrow> string list" where
  "orderFormSchema_issues data =
     (if length (form_customerName data) < 1 then [''Customer name is required''] else [])
     @ (if length (form_customerPhone data) < 10 then [''Valid phone number is required''] else [])
     @ (if form_deliveryMethod data = Delivery
            \<and> \<not> (truthy (form_streetAddress data) \<and> truthy (form_zipCode data))
        then [''Address information is required for delivery'']
        else [])"

section \<open>Reading the claims\<close>

text \<open>
  What merging one property means: left out of the patch, the result keeps the stored value;
  named by the patch, the result has the patch's value.
\<close>

definition merged_over :: "'a \<Rightarrow> 'a option \<Rightarrow> 'a \<Rightarrow> bool" where
  "merged_over stored given result =
     ((given = None \<longrightarrow> result = stored) \<and> (\<forall>v. given = Some v \<longrightarrow> result = v))"

text \<open>
  A duration in minutes as \<open>"{hours}h {minutes}m"\<close>: the whole minutes divided by 60, and
  modulo 60.
\<close>

definition hours_minutes :: "real \<Rightarrow> string" where
  "hours_minutes minutes =
     show_nat (nat \<lfloor>minutes\<rfloor> div 60) @ ''h '' @ show_nat (nat \<lfloor>minutes\<rfloor> mod 60) @ ''m''"

text \<open>
  The number a decimal numeral denotes: digits, optionally followed by a point and digits.
\<close>

definition digit_of :: "char \<Rightarrow> nat option" where
  "digit_of c = map_of (zip ''0123456789'' [0, 1, 2, 3, 4, 5, 6, 7, 8, 9]) c"

fun digits_value :: "nat \<Rightarrow> string \<Rightarrow> nat option" where
  "digits_value acc [] = Some acc"
| "digits_value acc (c # cs) =
     (case digit_of c of None \<Rightarrow> None | Some d \<Rightarrow> digits_value (10 * acc + d) cs)"

definition decimal_value :: "string \<Rightarrow> real option" where
  "decimal_value s =
     (let whole = takeWhile (\<lambda>c. c \<noteq> CHR ''.'') s;
          frac = drop 1 (dropWhile (\<lambda>c. c \<noteq> CHR ''.'') s)
      in if whole = [] then None
         else (case (digits_value 0 whole, digits_value 0 frac) of
                 (Some i, Some f) \<Rightarrow> Some (of_nat i + of_nat f / 10 ^ length frac)
               | _ \<Rightarrow> None))"

text \<open>
  The total cost law on a stored record: \<open>baseCost\<close> and \<open>totalCost\<close> are decimals, and
  \<open>totalCost = baseCost + (5.00 if supportRemoval, else 0.00)\<close>.
\<close>

definition total_cost_law :: "Order \<Rightarrow> bool" where
  "total_cost_law order =
     (case (baseCost order, totalCost order) of
        (Some b, Some t) \<Rightarrow>
          (case (decimal_value b, decimal_value t) of
             (Some x, Some y) \<Rightarrow> y = x + (if supportRemoval order = Some True then 5 else 0)
           | _ \<Rightarrow> False)
      | _ \<Rightarrow> False)"

text \<open>
  A printer for the sample runs: a non-negative number of at most two decimals as
  \<open>toString\<close> prints it, without trailing zeros (\<open>8.75\<close>, \<open>13.5\<close>, \<open>5\<close>).
\<close>

definition two_decimals :: "real \<Rightarrow> string" where
  "two_decimals x =
     (let n = nat \<lfloor>x * 100\<rfloor>; cents = n mod 100
      in show_nat (n div 100)
         @ (if cents = 0 then []
            else CHR ''.'' # digit_char (cents div 10)
                 # (if cents mod 10 = 0 then [] else [digit_char (cents mod 10)])))"

section \<open>Sample data\<close>

text \<open>A meetup draft that leaves every optional field out, and a patch that names nothing.\<close>

definition meetup_draft :: InsertOrder where
  "meetup_draft = \<lparr>
     ins_customerName = ''Ada Lovelace'',
     ins_customerPhone = ''5551234567'',
     ins_deliveryMethod = ''meetup'',
     ins_streetAddress = None,
     ins_city = Some [],
     ins_state = Some ''NJ'',
     ins_zipCode = None,
     ins_modelFileName = None,
     ins_modelWeight = None,
     ins_printTime = None,
     ins_baseCost = None,
     ins_supportRemoval = None,
     ins_supportCost = None,
     ins_totalCost = None,
     ins_status = Some ''completed'' \<rparr>"

definition meetup_order :: Order where
  "meetup_order = \<lparr>
     id' = ''a1'',
     customerName = ''Ada Lovelace'',
     customerPhone = ''5551234567'',
     deliveryMethod = ''meetup'',
     streetAddress = None,
     city = None,
     state = Some ''NJ'',
     zipCode = None,
     modelFileName = None,
     modelWeight = None,
     printTime = None,
     baseCost = None,
     supportRemoval = Some False,
     supportCost = Some ''0.00'',
     totalCost = None,
     status = Some ''pending'',
     createdAt = Some 1000,
     updatedAt = Some 1000 \<rparr>"

definition no_updates :: OrderPatch where
  "no_updates = \<lparr>
     upd_id = None,
     upd_customerName = None,
     upd_customerPhone = None,
     upd_deliveryMethod = None,
     upd_streetAddress = None,
     upd_city = None,
     upd_state = None,
     upd_zipCode = None,
     upd_modelFileName = None,
     upd_modelWeight = None,
     upd_printTime = None,
     upd_baseCost = None,
     upd_supportRemoval = None,
     upd_supportCost = None,
     upd_totalCost = None,
     upd_status = None,
     upd_createdAt = None,
     upd_updatedAt = None \<rparr>"

text \<open>
  Uploads of exactly 2 MB, of 128 KB, of 8 MB, of 2411500 bytes (about 2.3 MB), of one byte
  less than 1 MB, and of 263193 bytes (about 0.251 MB).
\<close>

definition cube_file :: MulterFile where
  "cube_file = \<lparr> originalname = ''cube.stl'', size' = 2097152 \<rparr>"

definition tiny_file :: MulterFile where
  "tiny_file = \<lparr> originalname = ''tiny.obj'', size' = 131072 \<rparr>"

definition big_file :: MulterFile where
  "big_file = \<lparr> originalname = ''big.3mf'', size' = 8388608 \<rparr>"

definition gear_file :: MulterFile where
  "gear_file = \<lparr> originalname = ''gear.stl'', size' = 2411500 \<rparr>"

definition edge_file :: MulterFile where
  "edge_file = \<lparr> originalname = ''edge.stl'', size' = 1048575 \<rparr>"

definition clip_file :: MulterFile where
  "clip_file = \<lparr> originalname = ''clip.stl'', size' = 263193 \<rparr>"

text \<open>
  What the client form posts with its defaults when only name and phone are typed in: delivery,
  an empty street address and an empty zip code. The same with meetup chosen.
\<close>

definition delivery_no_address :: OrderData where
  "delivery_no_address = \<lparr>
     req_customerName = Some ''Ada Lovelace'',
     req_customerPhone = Some ''5551234567'',
     req_deliveryMethod = Some ''delivery'',
     req_streetAddress = Some [],
     req_city = Some ''Monroe Township'',
     req_state = Some ''NJ'',
     req_zipCode = Some [],
     req_modelFileName = None,
     req_modelWeight = None,
     req_printTime = None,
     req_baseCost = None,
     req_supportRemoval = Some ''false'',
     req_supportCost = None,
     req_totalCost = None,
     req_status = None \<rparr>"

definition delivery_validated :: InsertOrder where
  "delivery_validated = \<lparr>
     ins_customerName = ''Ada Lovelace'',
     ins_customerPhone = ''5551234567'',
     ins_deliveryMethod = ''delivery'',
     ins_streetAddress = Some [],
     ins_city = Some ''Monroe Township'',
     ins_state = Some ''NJ'',
     ins_zipCode = Some [],
     ins_modelFileName = None,
     ins_modelWeight = None,
     ins_printTime = None,
     ins_baseCost = None,
     ins_supportRemoval = Some False,
     ins_supportCost = Some ''0.00'',
     ins_totalCost = None,
     ins_status = None \<rparr>"

definition meetup_no_address :: OrderData where
  "meetup_no_address = delivery_no_address\<lparr> req_deliveryMethod := Some ''meetup'' \<rparr>"

definition delivery_form :: OrderFormData where
  "delivery_form = \<lparr>
     form_customerName = ''Ada Lovelace'',
     form_customerPhone = ''5551234567'',
     form_deliveryMethod = Delivery,
     form_streetAddress = Some [],
     form_city = Some ''Monroe Township'',
     form_state = Some ''NJ'',
     form_zipCode = Some [],
     form_supportRemoval = False \<rparr>"

definition no_address_order :: "string \<Rightarrow> Order" where
  "no_address_order method = \<lparr>
     id' = ''a1'',
     customerName = ''Ada Lovelace'',
     customerPhone = ''5551234567'',
     deliveryMethod = method,
     streetAddress = None,
     city = Some ''Monroe Township'',
     state = Some ''NJ'',
     zipCode = None,
     modelFileName = None,
     modelWeight = None,
     printTime = None,
     baseCost = None,
     supportRemoval = Some False,
     supportCost = Some ''0.00'',
     totalCost = None,
     status = Some ''pending'',
     createdAt = Some 1000,
     updatedAt = Some 1000 \<rparr>"

text \<open>
  A meetup payload with support removal; and the same with pricing fields of the client's own.
\<close>

definition support_request :: OrderData where
  "support_request = meetup_no_address\<lparr> req_supportRemoval := Some ''true'' \<rparr>"

definition client_priced :: OrderData where
  "client_priced = support_request\<lparr>
     req_modelWeight := Some ''10'',
     req_printTime := Some ''1h 0m'',
     req_baseCost := Some ''2.50'',
     req_totalCost := Some ''0.01'' \<rparr>"

definition priced_order :: "string \<Rightarrow> string \<Rightarrow> string \<Rightarrow> string \<Rightarrow> string \<Rightarrow> Order" where
  "priced_order w t b s tot = (no_address_order ''meetup'')\<lparr>
     modelFileName := Some ''cube.stl'',
     modelWeight := Some w,
     printTime := Some t,
     baseCost := Some b,
     supportRemoval := Some True,
     supportCost := Some s,
     totalCost := Some tot \<rparr>"

text \<open>A mail collaborator that always fails.\<close>

definition failing_mail :: "Order \<Rightarrow> MulterFile option \<Rightarrow> MailResult" where
  "failing_mail order file = MailError ''connection refused''"

text \<open>A patch that confirms an order and names a stale \<open>updatedAt\<close>; a patch that names another identifier.\<close>

definition confirm_patch :: OrderPatch where
  "confirm_patch = no_updates\<lparr> upd_status := Some (Some ''confirmed''), upd_updatedAt := Some (Some 5) \<rparr>"

definition rename_patch :: OrderPatch where
  "rename_patch = no_updates\<lparr> upd_id := Some ''b2'' \<rparr>"

section \<open>Facts about the store\<close>

lemma createOrder_meetup_draft:
  "createOrder Map.empty ''a1'' 1000 meetup_draft = (meetup_order, [''a1'' \<mapsto> meetup_order])"
  by (simp add: createOrder_def meetup_draft_def meetup_order_def Let_def
      or_null_def or_false_def or_string_def)

lemma or_null_not_empty: "or_null x \<noteq> Some []"
  by (simp add: or_null_def split: option.splits)

lemma or_null_absent: "x = None \<or> x = Some [] \<Longrightarrow> or_null x = None"
  by (auto simp: or_null_def)

lemma or_null_present: "s \<noteq> [] \<Longrightarrow> or_null (Some s) = Some s"
  by (simp add: or_null_def)

lemma updateOrder_other_key:
  "k \<noteq> i \<Longrightarrow> snd (updateOrder orders i updates now) k = orders k"
  by (simp add: updateOrder_def Let_def split: option.splits)

lemma updateOrder_same_key:
  "orders i = Some existing \<Longrightarrow>
   snd (updateOrder orders i updates now) i = Some (merge_updates existing updates now)"
  by (simp add: updateOrder_def Let_def)

lemma merge_updates_id:
  "upd_id updates = None \<or> upd_id updates = Some (id' existing) \<Longrightarrow>
   id' (merge_updates existing updates now) = id' existing"
  by (auto simp: merge_updates_def spread_def)

section \<open>The store: read-your-writes\<close>

text \<open>
  C4. After \<open>createOrder\<close> returns an order under the identifier it drew, \<open>getOrder\<close> with
  that identifier returns the very record that was returned: its identifier is the drawn one,
  its status is \<open>pending\<close>, \<open>createdAt\<close> and \<open>updatedAt\<close> are the same instant, the
  required fields are the draft's, and an optional field the draft leaves out is defaulted
  (\<open>null\<close>; \<open>false\<close> for \<open>supportRemoval\<close>, \<open>"0.00"\<close> for \<open>supportCost\<close>). This holds
  for every draft, every previous content of the store, every identifier and every time.
\<close>

theorem create_then_get:
  assumes "createOrder orders uuid now draft = (order, orders')"
  shows "getOrder orders' uuid = Some order
   \<and> id' order = uuid
   \<and> status order = Some ''pending''
   \<and> createdAt order = Some now
   \<and> updatedAt order = createdAt order
   \<and> customerName order = ins_customerName draft
   \<and> customerPhone order = ins_customerPhone draft
   \<and> deliveryMethod order = ins_deliveryMethod draft
   \<and> streetAddress order = or_null (ins_streetAddress draft)
   \<and> city order = or_null (ins_city draft)
   \<and> state order = or_null (ins_state draft)
   \<and> zipCode order = or_null (ins_zipCode draft)
   \<and> modelFileName order = or_null (ins_modelFileName draft)
   \<and> modelWeight order = or_null (ins_modelWeight draft)
   \<and> printTime order = or_null (ins_printTime draft)
   \<and> baseCost order = or_null (ins_baseCost draft)
   \<and> totalCost order = or_null (ins_totalCost draft)
   \<and> supportRemoval order = Some (or_false (ins_supportRemoval draft))
   \<and> supportCost order = Some (or_string (ins_supportCost draft) ''0.00'')
   \<and> or_null None = None \<and> or_false None = False \<and> or_string None ''0.00'' = ''0.00''"
  using assms
  by (auto simp: createOrder_def getOrder_def Let_def or_null_def or_false_def or_string_def)

theorem create_then_get_witness:
  "createOrder Map.empty ''a1'' 1000 meetup_draft = (meetup_order, [''a1'' \<mapsto> meetup_order])
   \<and> getOrder [''a1'' \<mapsto> meetup_order] ''a1'' = Some meetup_order
   \<and> status meetup_order = Some ''pending''
   \<and> streetAddress meetup_order = None
   \<and> updatedAt meetup_order = createdAt meetup_order"
  using create_then_get [OF createOrder_meetup_draft] createOrder_meetup_draft
  by (simp add: meetup_draft_def or_null_def)

section \<open>The store: what \<open>createOrder\<close> writes\<close>

text \<open>
  C10. For every insert payload, the record \<open>createOrder\<close> returns has no empty string in
  an optional field. Each of \<open>streetAddress\<close>, \<open>city\<close>, \<open>state\<close>, \<open>zipCode\<close>,
  \<open>modelFileName\<close>, \<open>modelWeight\<close>, \<open>printTime\<close>, \<open>baseCost\<close> and \<open>totalCost\<close> is
  \<open>null\<close> when the payload leaves it out or gives the empty string, and is the payload's
  string otherwise. \<open>supportCost\<close> is \<open>"0.00"\<close> when left out or empty, \<open>supportRemoval\<close> is
  \<open>false\<close> when left out, and \<open>status\<close> is \<open>"pending"\<close> whatever status the payload names.
\<close>

theorem createOrder_defaults:
  assumes "createOrder orders uuid now payload = (order, orders')"
  shows "(\<forall>(given, stored) \<in> set
            [(ins_streetAddress payload, streetAddress order),
             (ins_city payload, city order),
             (ins_state payload, state order),
             (ins_zipCode payload, zipCode order),
             (ins_modelFileName payload, modelFileName order),
             (ins_modelWeight payload, modelWeight order),
             (ins_printTime payload, printTime order),
             (ins_baseCost payload, baseCost order),
             (ins_totalCost payload, totalCost order)].
            stored \<noteq> Some []
            \<and> (given = None \<or> given = Some [] \<longrightarrow> stored = None)
            \<and> (\<forall>s. given = Some s \<and> s \<noteq> [] \<longrightarrow> stored = Some s))
   \<and> supportCost order \<noteq> Some [] \<and> supportCost order \<noteq> None
   \<and> (ins_supportCost payload = None \<or> ins_supportCost payload = Some [] \<longrightarrow>
        supportCost order = Some ''0.00'')
   \<and> (\<forall>s. ins_supportCost payload = Some s \<and> s \<noteq> [] \<longrightarrow> supportCost order = Some s)
   \<and> (ins_supportRemoval payload = None \<longrightarrow> supportRemoval order = Some False)
   \<and> (\<forall>b. ins_supportRemoval payload = Some b \<longrightarrow> supportRemoval order = Some b)
   \<and> status order = Some ''pending''"
proof -
  have order: "order = fst (createOrder orders uuid now payload)"
    using assms by simp
  have fields: "stored \<noteq> Some []
      \<and> (given = None \<or> given = Some [] \<longrightarrow> stored = None)
      \<and> (\<forall>s. given = Some s \<and> s \<noteq> [] \<longrightarrow> stored = Some s)"
    if "stored = or_null given" for given stored
    using that or_null_not_empty [of given] or_null_absent [of given]
    by (auto simp: or_null_present)
  have "supportCost order = Some (or_string (ins_supportCost payload) ''0.00'')"
    and "supportRemoval order = Some (or_false (ins_supportRemoval payload))"
    and "status order = Some ''pending''"
    by (simp_all add: order createOrder_def Let_def)
  moreover have "or_string (ins_supportCost payload) ''0.00'' \<noteq> []"
    by (simp add: or_string_def split: option.splits)
  ultimately have rest: "supportCost order \<noteq> Some [] \<and> supportCost order \<noteq> None
     \<and> (ins_supportCost payload = None \<or> ins_supportCost payload = Some [] \<longrightarrow>
          supportCost order = Some ''0.00'')
     \<and> (\<forall>s. ins_supportCost payload = Some s \<and> s \<noteq> [] \<longrightarrow> supportCost order = Some s)
     \<and> (ins_supportRemoval payload = None \<longrightarrow> supportRemoval order = Some False)
     \<and> (\<forall>b. ins_supportRemoval payload = Some b \<longrightarrow> supportRemoval order = Some b)
     \<and> status order = Some ''pending''"
    by (auto simp: or_string_def or_false_def)
  have "streetAddress order = or_null (ins_streetAddress payload)"
    "city order = or_null (ins_city payload)"
    "state order = or_null (ins_state payload)"
    "zipCode order = or_null (ins_zipCode payload)"
    "modelFileName order = or_null (ins_modelFileName payload)"
    "modelWeight order = or_null (ins_modelWeight payload)"
    "printTime order = or_null (ins_printTime payload)"
    "baseCost order = or_null (ins_baseCost payload)"
    "totalCost order = or_null (ins_totalCost payload)"
    by (simp_all add: order createOrder_def Let_def)
  then have "\<forall>(given, stored) \<in> set
            [(ins_streetAddress payload, streetAddress order),
             (ins_city payload, city order),
             (ins_state payload, state order),
             (ins_zipCode payload, zipCode order),
             (ins_modelFileName payload, modelFileName order),
             (ins_modelWeight payload, modelWeight order),
             (ins_printTime payload, printTime order),
             (ins_baseCost payload, baseCost order),
             (ins_totalCost payload, totalCost order)].
            stored \<noteq> Some []
            \<and> (given = None \<or> given = Some [] \<longrightarrow> stored = None)
            \<and> (\<forall>s. given = Some s \<and> s \<noteq> [] \<longrightarrow> stored = Some s)"
    using fields by simp
  with rest show ?thesis by blast
qed

theorem createOrder_defaults_witness:
  "createOrder Map.empty ''a1'' 1000 meetup_draft = (meetup_order, [''a1'' \<mapsto> meetup_order])
   \<and> ins_streetAddress meetup_draft = None \<and> streetAddress meetup_order = None
   \<and> ins_city meetup_draft = Some [] \<and> city meetup_order = None
   \<and> ins_state meetup_draft = Some ''NJ'' \<and> state meetup_order = Some ''NJ''
   \<and> ins_supportCost meetup_draft = None \<and> supportCost meetup_order = Some ''0.00''
   \<and> ins_supportRemoval meetup_draft = None \<and> supportRemoval meetup_order = Some False
   \<and> ins_status meetup_draft = Some ''completed'' \<and> status meetup_order = Some ''pending''"
  using createOrder_defaults [OF createOrder_meetup_draft] createOrder_meetup_draft
  by (simp add: meetup_draft_def)

section \<open>The store: \<open>updateOrder\<close>\<close>

lemma merged_over_spread: "merged_over stored given (spread stored given)"
  by (simp add: merged_over_def spread_def split: option.splits)

text \<open>
  C8. \<open>updateOrder\<close> on an identifier the store holds returns the stored record with the
  patch's properties merged over it and \<open>updatedAt\<close> set to the current time (also when the
  patch names an \<open>updatedAt\<close> of its own), writes that record under the identifier and leaves
  every other entry alone; every field the patch does not name keeps its stored value. On an
  identifier the store does not hold it returns \<open>undefined\<close> and the store is unchanged.
\<close>

theorem updateOrder_merges:
  "(orders i = None \<longrightarrow> updateOrder orders i updates now = (None, orders))
   \<and> (\<forall>existing. orders i = Some existing \<longrightarrow>
        (\<exists>merged. updateOrder orders i updates now = (Some merged, orders(i \<mapsto> merged))
           \<and> updatedAt merged = Some now
           \<and> merged_over (id' existing) (upd_id updates) (id' merged)
           \<and> merged_over (customerName existing) (upd_customerName updates) (customerName merged)
           \<and> merged_over (customerPhone existing) (upd_customerPhone updates) (customerPhone merged)
           \<and> merged_over (deliveryMethod existing) (upd_deliveryMethod updates) (deliveryMethod merged)
           \<and> merged_over (streetAddress existing) (upd_streetAddress updates) (streetAddress merged)
           \<and> merged_over (city existing) (upd_city updates) (city merged)
           \<and> merged_over (state existing) (upd_state updates) (state merged)
           \<and> merged_over (zipCode existing) (upd_zipCode updates) (zipCode merged)
           \<and> merged_over (modelFileName existing) (upd_modelFileName updates) (modelFileName merged)
           \<and> merged_over (modelWeight existing) (upd_modelWeight updates) (modelWeight merged)
           \<and> merged_over (printTime existing) (upd_printTime updates) (printTime merged)
           \<and> merged_over (baseCost existing) (upd_baseCost updates) (baseCost merged)
           \<and> merged_over (supportRemoval existing) (upd_supportRemoval updates) (supportRemoval merged)
           \<and> merged_over (supportCost existing) (upd_supportCost updates) (supportCost merged)
           \<and> merged_over (totalCost existing) (upd_totalCost updates) (totalCost merged)
           \<and> merged_over (status existing) (upd_status updates) (status merged)
           \<and> merged_over (createdAt existing) (upd_createdAt updates) (createdAt merged)))"
proof (intro conjI allI impI)
  assume "orders i = None"
  then show "updateOrder orders i updates now = (None, orders)"
    by (simp add: updateOrder_def)
next
  fix existing
  assume stored: "orders i = Some existing"
  let ?m = "merge_updates existing updates now"
  have "updateOrder orders i updates now = (Some ?m, orders(i \<mapsto> ?m))"
    using stored by (simp add: updateOrder_def Let_def)
  moreover have "updatedAt ?m = Some now"
    by (simp add: merge_updates_def)
  moreover have "merged_over (id' existing) (upd_id updates) (id' ?m)"
    "merged_over (customerName existing) (upd_customerName updates) (customerName ?m)"
    "merged_over (customerPhone existing) (upd_customerPhone updates) (customerPhone ?m)"
    "merged_over (deliveryMethod existing) (upd_deliveryMethod updates) (deliveryMethod ?m)"
    "merged_over (streetAddress existing) (upd_streetAddress updates) (streetAddress ?m)"
    "merged_over (city existing) (upd_city updates) (city ?m)"
    "merged_over (state existing) (upd_state updates) (state ?m)"
    "merged_over (zipCode existing) (upd_zipCode updates) (zipCode ?m)"
    "merged_over (modelFileName existing) (upd_modelFileName updates) (modelFileName ?m)"
    by (simp_all add: merge_updates_def merged_over_spread)
  moreover have "merged_over (modelWeight existing) (upd_modelWeight updates) (modelWeight ?m)"
    "merged_over (printTime existing) (upd_printTime updates) (printTime ?m)"
    "merged_over (baseCost existing) (upd_baseCost updates) (baseCost ?m)"
    "merged_over (supportRemoval existing) (upd_supportRemoval updates) (supportRemoval ?m)"
    "merged_over (supportCost existing) (upd_supportCost updates) (supportCost ?m)"
    "merged_over (totalCost existing) (upd_totalCost updates) (totalCost ?m)"
    "merged_over (status existing) (upd_status updates) (status ?m)"
    "merged_over (createdAt existing) (upd_createdAt updates) (createdAt ?m)"
    by (simp_all add: merge_updates_def merged_over_spread)
  ultimately show "\<exists>merged. updateOrder orders i updates now = (Some merged, orders(i \<mapsto> merged))
           \<and> updatedAt merged = Some now
           \<and> merged_over (id' existing) (upd_id updates) (id' merged)
           \<and> merged_over (customerName existing) (upd_customerName updates) (customerName merged)
           \<and> merged_over (customerPhone existing) (upd_customerPhone updates) (customerPhone merged)
           \<and> merged_over (deliveryMethod existing) (upd_deliveryMethod updates) (deliveryMethod merged)
           \<and> merged_over (streetAddress existing) (upd_streetAddress updates) (streetAddress merged)
           \<and> merged_over (city existing) (upd_city updates) (city merged)
           \<and> merged_over (state existing) (upd_state updates) (state merged)
           \<and> merged_over (zipCode existing) (upd_zipCode updates) (zipCode merged)
           \<and> merged_over (modelFileName existing) (upd_modelFileName updates) (modelFileName merged)
           \<and> merged_over (modelWeight existing) (upd_modelWeight updates) (modelWeight merged)
           \<and> merged_over (printTime existing) (upd_printTime updates) (printTime merged)
           \<and> merged_over (baseCost existing) (upd_baseCost updates) (baseCost merged)
           \<and> merged_over (supportRemoval existing) (upd_supportRemoval updates) (supportRemoval merged)
           \<and> merged_over (supportCost existing) (upd_supportCost updates) (supportCost merged)
           \<and> merged_over (totalCost existing) (upd_totalCost updates) (totalCost merged)
           \<and> merged_over (status existing) (upd_status updates) (status merged)
           \<and> merged_over (createdAt existing) (upd_createdAt updates) (createdAt merged)"
    by blast
qed

theorem updateOrder_merges_witness:
  "[''a1'' \<mapsto> meetup_order] ''a1'' = Some meetup_order
   \<and> upd_status confirm_patch = Some (Some ''confirmed'')
   \<and> upd_updatedAt confirm_patch = Some (Some 5)
   \<and> upd_customerName confirm_patch = None
   \<and> updateOrder [''a1'' \<mapsto> meetup_order] ''a1'' confirm_patch 2000 =
       (Some (meetup_order\<lparr> status := Some ''confirmed'', updatedAt := Some 2000 \<rparr>),
        [''a1'' \<mapsto> meetup_order\<lparr> status := Some ''confirmed'', updatedAt := Some 2000 \<rparr>])
   \<and> [''a1'' \<mapsto> meetup_order] ''zz'' = None
   \<and> updateOrder [''a1'' \<mapsto> meetup_order] ''zz'' confirm_patch 2000 =
       (None, [''a1'' \<mapsto> meetup_order])"
  using updateOrder_merges [of "[''a1'' \<mapsto> meetup_order]" "''a1''" confirm_patch 2000]
    updateOrder_merges [of "[''a1'' \<mapsto> meetup_order]" "''zz''" confirm_patch 2000]
  by (simp add: updateOrder_def merge_updates_def spread_def confirm_patch_def no_updates_def
      meetup_order_def Let_def)

section \<open>The store: the identifier under updates\<close>

text \<open>
  C6, as the claim states it: after any update calls, the record read under an identifier
  still has that identifier as its \<open>id\<close>. The spread copies an \<open>id\<close> named by the patch like
  any other property, so one call with a patch naming another identifier falsifies it: the
  record stored under \<open>a1\<close> then says its \<open>id\<close> is \<open>b2\<close>.
\<close>

theorem update_can_rename_id:
  "getOrder [''a1'' \<mapsto> meetup_order] ''a1'' = Some meetup_order
   \<and> id' meetup_order = ''a1''
   \<and> upd_id rename_patch = Some ''b2''
   \<and> map_option id' (getOrder (updateOrders [''a1'' \<mapsto> meetup_order] [(''a1'', rename_patch, 2000)]) ''a1'')
       = Some ''b2''
   \<and> map_option id' (getOrder (updateOrders [''a1'' \<mapsto> meetup_order] [(''a1'', rename_patch, 2000)]) ''a1'')
       \<noteq> Some ''a1''"
  by (simp add: getOrder_def updateOrder_def merge_updates_def spread_def rename_patch_def
      no_updates_def meetup_order_def Let_def)

text \<open>
  C6, amended. \<open>createOrder\<close> stores the new record under the identifier it writes into it.
  For every stored order whose \<open>id\<close> is the key it is stored under, and every sequence of
  \<open>updateOrder\<close> calls (on any identifiers) whose patches either do not name \<open>id\<close> or name
  the identifier of the call, the record read under that key afterwards still exists and
  still has the key as its \<open>id\<close>.
\<close>

theorem updateOrders_keep_id:
  assumes "getOrder orders k = Some order"
    and "id' order = k"
    and "\<forall>(i, updates, now) \<in> set calls. upd_id updates = None \<or> upd_id updates = Some i"
  shows "\<exists>order'. getOrder (updateOrders orders calls) k = Some order' \<and> id' order' = k"
  using assms
proof (induction calls arbitrary: orders order)
  case Nil
  then show ?case by simp
next
  case (Cons call calls)
  obtain i updates now where call: "call = (i, updates, now)"
    by (cases call) auto
  let ?next = "snd (updateOrder orders i updates now)"
  have patch: "upd_id updates = None \<or> upd_id updates = Some i"
    using Cons.prems(3) call by auto
  have rest: "\<forall>(i, updates, now) \<in> set calls. upd_id updates = None \<or> upd_id updates = Some i"
    using Cons.prems(3) by simp
  have stored: "orders k = Some order"
    using Cons.prems(1) by (simp add: getOrder_def)
  have "\<exists>order'. getOrder ?next k = Some order' \<and> id' order' = k"
  proof (cases "i = k")
    case True
    have "?next k = Some (merge_updates order updates now)"
      using stored True by (simp add: updateOrder_same_key)
    moreover have "id' (merge_updates order updates now) = k"
      using patch True Cons.prems(2) merge_updates_id [of updates order now] by simp
    ultimately show ?thesis by (simp add: getOrder_def)
  next
    case False
    then have "?next k = orders k"
      by (simp add: updateOrder_other_key)
    then show ?thesis using stored Cons.prems(2) by (simp add: getOrder_def)
  qed
  then obtain order' where "getOrder ?next k = Some order'" and "id' order' = k"
    by blast
  from Cons.IH [OF this rest] show ?case
    by (simp add: call)
qed

theorem updateOrders_keep_id_witness:
  "getOrder (snd (createOrder Map.empty ''a1'' 1000 meetup_draft)) ''a1'' = Some meetup_order
   \<and> id' meetup_order = ''a1''
   \<and> upd_id confirm_patch = None
   \<and> upd_id (no_updates\<lparr> upd_id := Some ''a1'' \<rparr>) = Some ''a1''
   \<and> map_option id' (getOrder (updateOrders (snd (createOrder Map.empty ''a1'' 1000 meetup_draft))
        [(''a1'', confirm_patch, 2000), (''zz'', confirm_patch, 2500),
         (''a1'', no_updates\<lparr> upd_id := Some ''a1'' \<rparr>, 3000)]) ''a1'') = Some ''a1''"
proof -
  have stored: "getOrder (snd (createOrder Map.empty ''a1'' 1000 meetup_draft)) ''a1'' = Some meetup_order"
    by (simp add: createOrder_meetup_draft getOrder_def)
  have key: "id' meetup_order = ''a1''"
    by (simp add: meetup_order_def)
  have patches: "\<forall>(i, updates, now) \<in> set [(''a1'', confirm_patch, 2000 :: nat),
      (''zz'', confirm_patch, 2500), (''a1'', no_updates\<lparr> upd_id := Some ''a1'' \<rparr>, 3000)].
      upd_id updates = None \<or> upd_id updates = Some i"
    by (simp add: confirm_patch_def no_updates_def)
  show ?thesis
    using updateOrders_keep_id [OF stored key patches] stored key
    by (auto simp: confirm_patch_def no_updates_def)
qed

section \<open>Doubles\<close>

lemma bit_length_pos: "0 < n \<Longrightarrow> 0 < bit_length n"
  by (subst bit_length.simps) simp

lemma bit_length_bounds:
  "0 < n \<Longrightarrow> 2 ^ (bit_length n - 1) \<le> n \<and> n < 2 ^ bit_length n"
proof (induction n rule: bit_length.induct)
  case (1 n)
  show ?case
  proof (cases "n div 2 = 0")
    case True
    with "1.prems" have "n = 1" by presburger
    then show ?thesis by (simp add: bit_length.simps)
  next
    case False
    then have pos: "0 < n div 2" by simp
    from "1.IH" [OF _ pos] "1.prems"
    have ih: "2 ^ (bit_length (n div 2) - 1) \<le> n div 2" "n div 2 < 2 ^ bit_length (n div 2)"
      by auto
    have bl: "bit_length n = Suc (bit_length (n div 2))"
      using "1.prems" by (subst bit_length.simps) simp
    have "0 < bit_length (n div 2)"
      using pos by (rule bit_length_pos)
    then have "(2::nat) ^ (bit_length n - 1) = 2 * 2 ^ (bit_length (n div 2) - 1)"
      unfolding bl by (cases "bit_length (n div 2)") simp_all
    moreover have "2 * (n div 2) \<le> n" by simp
    moreover have "n < 2 * (n div 2) + 2" by presburger
    ultimately show ?thesis
      using ih unfolding bl by (simp; linarith)
  qed
qed

lemma binade_ge_1:
  assumes "1 \<le> x"
  shows "0 \<le> binade x" and "2 powi binade x \<le> x"
proof -
  let ?n = "nat \<lfloor>x\<rfloor>"
  have n: "0 < ?n" using assms by simp
  obtain k where k: "bit_length ?n = Suc k"
    using bit_length_pos [OF n] by (cases "bit_length ?n") simp_all
  have b: "binade x = int k"
    using assms by (simp add: binade_def k)
  show "0 \<le> binade x" by (simp add: b)
  have "2 ^ k \<le> ?n"
    using bit_length_bounds [OF n] by (simp add: k)
  then have "(2 :: real) ^ k \<le> real ?n"
    by (metis of_nat_le_iff of_nat_numeral of_nat_power)
  also have "\<dots> \<le> x" using assms by simp
  finally show "2 powi binade x \<le> x" by (simp add: b)
qed

lemma round_half_even_error: "\<bar>of_int (round_half_even m) - m\<bar> \<le> 1 / 2"
  unfolding round_half_even_def Let_def by (simp; linarith)

lemma round_half_even_nonneg: "0 \<le> m \<Longrightarrow> 0 \<le> round_half_even m"
  unfolding round_half_even_def Let_def by (simp; linarith)

lemma to_double_nonneg: "0 \<le> x \<Longrightarrow> 0 \<le> to_double x"
  unfolding to_double_def Let_def
  by (simp add: round_half_even_nonneg)

text \<open>Reading a number of at least 1 moves it by at most the fraction \<open>2^-53\<close> of itself.\<close>

lemma to_double_error:
  assumes "1 \<le> x"
  shows "\<bar>to_double x - x\<bar> \<le> x / 2 ^ 53"
proof -
  define q :: real where "q = 2 powi (binade x - 52)"
  define r where "r = round_half_even (x / q)"
  have e: "0 \<le> binade x" "2 powi binade x \<le> x"
    using binade_ge_1 [OF assms] by simp_all
  have q: "q = 2 powi binade x / 2 ^ 52"
    unfolding q_def by (simp add: power_int_diff)
  have qpos: "0 < q" unfolding q_def by simp
  have d: "to_double x = of_int r * q"
    using assms e(1) unfolding to_double_def r_def q_def by (simp add: max_def Let_def)
  have "\<bar>of_int r - x / q\<bar> \<le> 1 / 2"
    unfolding r_def by (rule round_half_even_error)
  then have "\<bar>of_int r - x / q\<bar> * q \<le> 1 / 2 * q"
    using qpos by (simp only: mult_le_cancel_right_pos)
  moreover have "of_int r * q - x = (of_int r - x / q) * q"
    using qpos by (simp add: field_simps)
  then have "\<bar>of_int r - x / q\<bar> * q = \<bar>of_int r * q - x\<bar>"
    using qpos by (simp add: abs_mult)
  ultimately have "\<bar>of_int r * q - x\<bar> \<le> q / 2" by simp
  also have "q / 2 = 2 powi binade x / 2 ^ 53" by (simp add: q)
  also have "\<dots> \<le> x / 2 ^ 53" using e(2) by (simp add: divide_right_mono)
  finally show ?thesis by (simp add: d)
qed

lemma cents_bounds:
  "of_int (cents x) \<le> x * 100 + 1 / 2" "x * 100 + 1 / 2 < of_int (cents x) + 1"
  unfolding cents_def by linarith+

lemma toFixed2_nonneg: "0 \<le> x \<Longrightarrow> toFixed2 x = to_double (of_int (cents x) / 100)"
  by (simp add: toFixed2_def)

text \<open>
  Rounding a weight between 5 and 530 to two decimals, reading it as a double and taking a
  quarter moves the cents of the quarter by at most one.
\<close>

lemma quarter_cents:
  assumes "5 \<le> w" and "w \<le> 530"
  shows "\<bar>cents (toFixed2 w * 0.25) - cents (w * 0.25)\<bar> \<le> 1"
proof -
  define x :: real where "x = of_int (cents w) / 100"
  define d where "d = to_double x"
  have k: "of_int (cents w) \<le> w * 100 + 1 / 2" "w * 100 + 1 / 2 < of_int (cents w) + 1"
    by (rule cents_bounds)+
  have "x - w \<le> 1 / 200" "w - x \<le> 1 / 200"
    unfolding x_def using k by linarith+
  then have x: "5 - 1 / 200 \<le> x" "x \<le> 531" "\<bar>x - w\<bar> \<le> 1 / 200"
    using assms by linarith+
  then have "1 \<le> x" by linarith
  from to_double_error [OF this] have "\<bar>d - x\<bar> \<le> x / 2 ^ 53"
    by (simp add: d_def)
  also have "\<dots> \<le> 531 / 2 ^ 53" using x(2) by (simp add: divide_right_mono)
  also have "\<dots> \<le> 1 / 1000" by simp
  finally have dx: "\<bar>d - x\<bar> \<le> 1 / 1000" .
  have fixed: "toFixed2 w = d"
    using assms by (simp add: toFixed2_def d_def x_def)
  have c: "of_int (cents (d * 0.25)) \<le> d * 0.25 * 100 + 1 / 2"
    "d * 0.25 * 100 + 1 / 2 < of_int (cents (d * 0.25)) + 1"
    by (rule cents_bounds)+
  have a: "of_int (cents (w * 0.25)) \<le> w * 0.25 * 100 + 1 / 2"
    "w * 0.25 * 100 + 1 / 2 < of_int (cents (w * 0.25)) + 1"
    by (rule cents_bounds)+
  have "(of_int (cents (d * 0.25)) :: real) < of_int (cents (w * 0.25)) + 2"
    using c(1) a(2) dx x(3) by (simp; linarith)
  moreover have "(of_int (cents (w * 0.25)) :: real) < of_int (cents (d * 0.25)) + 2"
    using c(2) a(1) dx x(3) by (simp; linarith)
  ultimately have "cents (d * 0.25) < cents (w * 0.25) + 2" "cents (w * 0.25) < cents (d * 0.25) + 2"
    by linarith+
  then show ?thesis unfolding fixed by linarith
qed

lemma to_double_samples:
  "to_double 5 = 5"
  "to_double 20 = 20"
  "to_double 35 = 35"
  "to_double 110 = 110"
  "to_double (35 / 4) = 35 / 4"
  "to_double (79 / 2) = 79 / 2"
  "to_double (55 / 2) = 55 / 2"
  by (simp_all add: to_double_def binade_def round_half_even_def bit_length.simps Let_def)

lemma to_double_cents_samples:
  "to_double (987 / 100) = 5556316040268349 / 2 ^ 49"
  "to_double (247 / 25) = 5561945539802563 / 2 ^ 49"
  "to_double (251 / 50) = 1413004383087493 / 2 ^ 48"
  "to_double (5 / 4) = 5 / 4"
  "to_double (63 / 50) = 5674535530486825 / 2 ^ 52"
  by (simp_all add: to_double_def binade_def round_half_even_def bit_length.simps Let_def)

section \<open>The estimator\<close>

lemma show_nat_not_empty: "show_nat n \<noteq> []"
  by (subst show_nat.simps) simp

lemma floor_div_60: "\<lfloor>x / 60\<rfloor> = \<lfloor>x :: real\<rfloor> div 60"
  using floor_divide_real_eq_div [of 60 x] by simp

lemma formatPrintTime_hours_minutes:
  assumes "0 \<le> minutes"
  shows "formatPrintTime minutes = hours_minutes minutes"
proof -
  have q: "\<lfloor>minutes / 60\<rfloor> = \<lfloor>minutes\<rfloor> div 60"
    by (rule floor_div_60)
  have t: "trunc (minutes / 60) = \<lfloor>minutes\<rfloor> div 60"
    using assms by (simp add: trunc_def q)
  have "js_rem minutes 60 = minutes - of_int (60 * (\<lfloor>minutes\<rfloor> div 60))"
    by (simp add: js_rem_def t)
  then have "\<lfloor>js_rem minutes 60\<rfloor> = \<lfloor>minutes\<rfloor> - 60 * (\<lfloor>minutes\<rfloor> div 60)"
    by (simp only: floor_diff_of_int)
  also have "\<dots> = \<lfloor>minutes\<rfloor> mod 60"
    by (simp add: minus_mult_div_eq_mod)
  finally have r: "\<lfloor>js_rem minutes 60\<rfloor> = \<lfloor>minutes\<rfloor> mod 60" .
  have nn: "0 \<le> \<lfloor>minutes\<rfloor>"
    using assms by simp
  then have "0 \<le> \<lfloor>minutes\<rfloor> div 60"
    by presburger
  then have "show_int (\<lfloor>minutes\<rfloor> div 60) = show_nat (nat \<lfloor>minutes\<rfloor> div 60)"
    using nn by (simp add: show_int_def nat_div_distrib)
  moreover have "show_int (\<lfloor>minutes\<rfloor> mod 60) = show_nat (nat \<lfloor>minutes\<rfloor> mod 60)"
    using nn by (simp add: show_int_def nat_mod_distrib)
  ultimately show ?thesis
    by (simp add: formatPrintTime_def hours_minutes_def Let_def q r)
qed

lemma printTimeMinutes_ge_30: "30 \<le> printTimeMinutes w mb"
  by (simp add: printTimeMinutes_def)

lemma estimatedWeight_ge_5: "5 \<le> estimatedWeight mb"
  by (simp add: estimatedWeight_def)

lemma estimatedWeight_le_530: "mb \<le> 50 \<Longrightarrow> estimatedWeight mb \<le> 530"
  by (simp add: estimatedWeight_def)

lemma analyze3DModel_fields:
  "weight (analyze3DModel file) = toFixed2 (estimatedWeight (fileSizeMB file))"
  "baseCost' (analyze3DModel file) = toFixed2 (estimatedWeight (fileSizeMB file) * 0.25)"
  "printTime' (analyze3DModel file) =
     hours_minutes (printTimeMinutes (estimatedWeight (fileSizeMB file)) (fileSizeMB file))"
proof -
  have "0 \<le> printTimeMinutes (estimatedWeight (fileSizeMB file)) (fileSizeMB file)"
    using printTimeMinutes_ge_30 [of "estimatedWeight (fileSizeMB file)" "fileSizeMB file"]
    by linarith
  then show "printTime' (analyze3DModel file) =
     hours_minutes (printTimeMinutes (estimatedWeight (fileSizeMB file)) (fileSizeMB file))"
    by (simp add: analyze3DModel_def Let_def formatPrintTime_hours_minutes)
qed (simp_all add: analyze3DModel_def Let_def)

lemma fileSizeMB_samples:
  "fileSizeMB cube_file = 2"
  "fileSizeMB tiny_file = 1 / 8"
  "fileSizeMB big_file = 8"
  "fileSizeMB gear_file = 602875 / 262144"
  "fileSizeMB edge_file = 1048575 / 1048576"
  "fileSizeMB clip_file = 263193 / 1048576"
  by (simp_all add: fileSizeMB_def cube_file_def tiny_file_def big_file_def gear_file_def
      edge_file_def clip_file_def)

lemma hours_minutes_samples:
  "hours_minutes 30 = ''0h 30m''"
  "hours_minutes (185 / 2) = ''1h 32m''"
  "hours_minutes 325 = ''5h 25m''"
  by (simp_all add: hours_minutes_def show_nat.simps digit_char_def)

lemma analyze3DModel_cube_file:
  "analyze3DModel cube_file = \<lparr> weight = 35, printTime' = ''1h 32m'', baseCost' = 35 / 4 \<rparr>"
proof -
  have "formatPrintTime (185 / 2) = ''1h 32m''"
    by (simp add: formatPrintTime_hours_minutes hours_minutes_samples)
  then show ?thesis
    by (simp add: analyze3DModel_def fileSizeMB_samples estimatedWeight_def printTimeMinutes_def
        toFixed2_def cents_def to_double_samples)
qed

lemma weight_gear_file: "weight (analyze3DModel gear_file) = 39.5"
  by (simp add: analyze3DModel_fields fileSizeMB_samples estimatedWeight_def toFixed2_def
      cents_def to_double_samples)

lemma baseCost_gear_file: "baseCost' (analyze3DModel gear_file) = to_double 9.87"
  by (simp add: analyze3DModel_fields fileSizeMB_samples estimatedWeight_def toFixed2_def cents_def)

lemma weight_clip_file: "weight (analyze3DModel clip_file) = to_double 5.02"
  by (simp add: analyze3DModel_fields fileSizeMB_samples estimatedWeight_def toFixed2_def cents_def)

lemma baseCost_clip_file: "baseCost' (analyze3DModel clip_file) = to_double 1.26"
  by (simp add: analyze3DModel_fields fileSizeMB_samples estimatedWeight_def toFixed2_def cents_def)

section \<open>The estimator: weight and print time\<close>

text \<open>
  C3, as the claim states it: the weight of the estimate is \<open>max(5, s*20)\<close> below 1 MB. A
  file of 1048575 bytes, one byte less than 1 MB, has \<open>max(5, s*20) = 19.99998...\<close>, and the
  estimator returns the weight 20: it returns the formula's value rounded to two decimals.
\<close>

theorem returned_weight_is_rounded:
  "fileSizeMB edge_file < 1
   \<and> max 5 (fileSizeMB edge_file * 20) = 5242875 / 262144
   \<and> weight (analyze3DModel edge_file) = 20
   \<and> weight (analyze3DModel edge_file) \<noteq> max 5 (fileSizeMB edge_file * 20)"
  by (simp add: analyze3DModel_fields fileSizeMB_samples estimatedWeight_def toFixed2_def
      cents_def to_double_samples)

text \<open>
  C3, amended. For every file, with \<open>s\<close> its size in megabytes, the estimator computes
  \<open>w = max(5, s*20)\<close> below 1 MB, \<open>w = 20 + (s-1)*15\<close> from 1 MB to below 5 MB and
  \<open>w = 80 + (s-5)*10\<close> from 5 MB on, and returns as weight \<open>w\<close> rounded to two decimals
  (\<open>parseFloat(w.toFixed(2))\<close>). The print time in minutes is \<open>max(30, w*1.5 + s*20)\<close> of
  the unrounded \<open>w\<close>, returned as \<open>"{hours}h {minutes}m"\<close> with the whole minutes divided
  by 60 and taken modulo 60.
\<close>

theorem analyze3DModel_weight_and_time:
  "(fileSizeMB file < 1 \<longrightarrow>
      weight (analyze3DModel file) = toFixed2 (max 5 (fileSizeMB file * 20))
      \<and> printTime' (analyze3DModel file) =
          hours_minutes (max 30 (max 5 (fileSizeMB file * 20) * 1.5 + fileSizeMB file * 20)))
   \<and> (1 \<le> fileSizeMB file \<and> fileSizeMB file < 5 \<longrightarrow>
      weight (analyze3DModel file) = toFixed2 (20 + (fileSizeMB file - 1) * 15)
      \<and> printTime' (analyze3DModel file) =
          hours_minutes (max 30 ((20 + (fileSizeMB file - 1) * 15) * 1.5 + fileSizeMB file * 20)))
   \<and> (5 \<le> fileSizeMB file \<longrightarrow>
      weight (analyze3DModel file) = toFixed2 (80 + (fileSizeMB file - 5) * 10)
      \<and> printTime' (analyze3DModel file) =
          hours_minutes (max 30 ((80 + (fileSizeMB file - 5) * 10) * 1.5 + fileSizeMB file * 20)))"
proof -
  let ?s = "fileSizeMB file"
  have small: "estimatedWeight ?s = max 5 (?s * 20)" if "?s < 1"
    using that by (simp add: estimatedWeight_def)
  have medium: "estimatedWeight ?s = 20 + (?s - 1) * 15" if "1 \<le> ?s \<and> ?s < 5"
    using that by (simp add: estimatedWeight_def)
  have large: "estimatedWeight ?s = 80 + (?s - 5) * 10" if "5 \<le> ?s"
    using that by (simp add: estimatedWeight_def)
  have minutes: "printTimeMinutes w ?s = max 30 (w * 1.5 + ?s * 20)" for w
    by (simp add: printTimeMinutes_def)
  show ?thesis
    using small medium large
    by (simp add: analyze3DModel_fields minutes)
qed

theorem analyze3DModel_weight_and_time_witness:
  "fileSizeMB cube_file = 2 \<and> 1 \<le> fileSizeMB cube_file \<and> fileSizeMB cube_file < 5
   \<and> weight (analyze3DModel cube_file) = toFixed2 (20 + (2 - 1) * 15)
   \<and> weight (analyze3DModel cube_file) = 35
   \<and> printTime' (analyze3DModel cube_file) = hours_minutes (max 30 (35 * 1.5 + 2 * 20))
   \<and> printTime' (analyze3DModel cube_file) = ''1h 32m''
   \<and> fileSizeMB tiny_file < 1
   \<and> weight (analyze3DModel tiny_file) = 5
   \<and> printTime' (analyze3DModel tiny_file) = ''0h 30m''
   \<and> 5 \<le> fileSizeMB big_file
   \<and> weight (analyze3DModel big_file) = 110
   \<and> printTime' (analyze3DModel big_file) = ''5h 25m''
   \<and> fileSizeMB edge_file < 1
   \<and> weight (analyze3DModel edge_file) = toFixed2 (max 5 (fileSizeMB edge_file * 20))
   \<and> weight (analyze3DModel edge_file) = 20"
proof -
  have "1 \<le> fileSizeMB cube_file \<and> fileSizeMB cube_file < 5"
    by (simp add: fileSizeMB_samples)
  with analyze3DModel_weight_and_time [of cube_file]
  have "weight (analyze3DModel cube_file) = toFixed2 (20 + (fileSizeMB cube_file - 1) * 15)"
    and "printTime' (analyze3DModel cube_file) =
      hours_minutes (max 30 ((20 + (fileSizeMB cube_file - 1) * 15) * 1.5 + fileSizeMB cube_file * 20))"
    by blast+
  then have cube: "weight (analyze3DModel cube_file) = toFixed2 (20 + (2 - 1) * 15)"
    "weight (analyze3DModel cube_file) = 35"
    "printTime' (analyze3DModel cube_file) = hours_minutes (max 30 (35 * 1.5 + 2 * 20))"
    "printTime' (analyze3DModel cube_file) = ''1h 32m''"
    by (simp_all add: fileSizeMB_samples toFixed2_def cents_def to_double_samples
        hours_minutes_samples)
  have "fileSizeMB tiny_file < 1"
    by (simp add: fileSizeMB_samples)
  with analyze3DModel_weight_and_time [of tiny_file]
  have "weight (analyze3DModel tiny_file) = toFixed2 (max 5 (fileSizeMB tiny_file * 20))"
    and "printTime' (analyze3DModel tiny_file) =
      hours_minutes (max 30 (max 5 (fileSizeMB tiny_file * 20) * 1.5 + fileSizeMB tiny_file * 20))"
    by blast+
  then have tiny: "weight (analyze3DModel tiny_file) = 5"
    "printTime' (analyze3DModel tiny_file) = ''0h 30m''"
    by (simp_all add: fileSizeMB_samples toFixed2_def cents_def to_double_samples
        hours_minutes_samples)
  have "5 \<le> fileSizeMB big_file"
    by (simp add: fileSizeMB_samples)
  with analyze3DModel_weight_and_time [of big_file]
  have "weight (analyze3DModel big_file) = toFixed2 (80 + (fileSizeMB big_file - 5) * 10)"
    and "printTime' (analyze3DModel big_file) =
      hours_minutes (max 30 ((80 + (fileSizeMB big_file - 5) * 10) * 1.5 + fileSizeMB big_file * 20))"
    by blast+
  then have big: "weight (analyze3DModel big_file) = 110"
    "printTime' (analyze3DModel big_file) = ''5h 25m''"
    by (simp_all add: fileSizeMB_samples toFixed2_def cents_def to_double_samples
        hours_minutes_samples)
  have "fileSizeMB edge_file < 1"
    by (simp add: fileSizeMB_samples)
  with analyze3DModel_weight_and_time [of edge_file]
  have edge: "weight (analyze3DModel edge_file) = toFixed2 (max 5 (fileSizeMB edge_file * 20))"
    by blast
  then have edge': "weight (analyze3DModel edge_file) = 20"
    by (simp add: fileSizeMB_samples toFixed2_def cents_def to_double_samples)
  show ?thesis
    using cube tiny big edge edge' by (simp add: fileSizeMB_samples)
qed

section \<open>The estimator: base cost and returned weight\<close>

text \<open>
  C5, as the claim states it: the returned base cost is the returned (rounded) weight times
  0.25, rounded to two decimals. For a file of 2411500 bytes the computed weight is about
  39.4968: the returned weight is 39.5, the returned base cost is the double 9.87 (a quarter
  of the computed weight is about 9.8742), and 39.5 times 0.25 is 9.875, which \<open>toFixed(2)\<close>
  rounds to 9.88.
\<close>

theorem baseCost_not_from_rounded_weight:
  "weight (analyze3DModel gear_file) = 39.5
   \<and> baseCost' (analyze3DModel gear_file) = to_double 9.87
   \<and> toFixed2 (weight (analyze3DModel gear_file) * 0.25) = to_double 9.88
   \<and> baseCost' (analyze3DModel gear_file) \<noteq> toFixed2 (weight (analyze3DModel gear_file) * 0.25)"
  by (simp add: weight_gear_file baseCost_gear_file toFixed2_def cents_def to_double_cents_samples)

text \<open>
  C5, amended. For every file the returned base cost is the weight the estimator computed,
  before rounding, times 0.25 and rounded to two decimals, and the returned weight is that
  computed weight rounded to two decimals. For a file of at most 50 MB, which is what the
  upload admits, rounding the returned weight times 0.25 to two decimals gives the cents of
  the returned base cost, one cent more, or one cent less.
\<close>

theorem baseCost_from_computed_weight:
  "baseCost' (analyze3DModel file) = toFixed2 (estimatedWeight (fileSizeMB file) * 0.25)
   \<and> baseCost' (analyze3DModel file)
       = to_double (of_int (cents (estimatedWeight (fileSizeMB file) * 0.25)) / 100)
   \<and> weight (analyze3DModel file) = toFixed2 (estimatedWeight (fileSizeMB file))
   \<and> toFixed2 (weight (analyze3DModel file) * 0.25)
       = to_double (of_int (cents (weight (analyze3DModel file) * 0.25)) / 100)
   \<and> (size' file \<le> 50 * 1024 * 1024 \<longrightarrow>
        \<bar>cents (weight (analyze3DModel file) * 0.25)
          - cents (estimatedWeight (fileSizeMB file) * 0.25)\<bar> \<le> 1)"
proof -
  let ?w = "estimatedWeight (fileSizeMB file)"
  have w: "5 \<le> ?w"
    by (rule estimatedWeight_ge_5)
  then have "0 \<le> ?w * 0.25" by simp
  then have base: "toFixed2 (?w * 0.25) = to_double (of_int (cents (?w * 0.25)) / 100)"
    by (rule toFixed2_nonneg)
  have "0 \<le> cents ?w"
    using w by (simp add: cents_def)
  then have "0 \<le> toFixed2 ?w"
    using w by (simp add: toFixed2_def to_double_nonneg)
  then have "0 \<le> toFixed2 ?w * 0.25" by simp
  then have again: "toFixed2 (toFixed2 ?w * 0.25)
      = to_double (of_int (cents (toFixed2 ?w * 0.25)) / 100)"
    by (rule toFixed2_nonneg)
  have close: "\<bar>cents (toFixed2 ?w * 0.25) - cents (?w * 0.25)\<bar> \<le> 1"
    if "size' file \<le> 50 * 1024 * 1024"
  proof -
    have "real (size' file) \<le> 50 * 1024 * 1024"
      using that by (metis of_nat_le_iff of_nat_numeral of_nat_mult)
    then have "fileSizeMB file \<le> 50"
      by (simp add: fileSizeMB_def)
    then have "?w \<le> 530"
      by (rule estimatedWeight_le_530)
    with w show ?thesis
      by (rule quarter_cents)
  qed
  show ?thesis
    using base again close by (simp add: analyze3DModel_fields)
qed

theorem baseCost_from_computed_weight_witness:
  "size' clip_file \<le> 50 * 1024 * 1024
   \<and> weight (analyze3DModel clip_file) = to_double 5.02
   \<and> baseCost' (analyze3DModel clip_file) = to_double 1.26
   \<and> cents (estimatedWeight (fileSizeMB clip_file) * 0.25) = 126
   \<and> cents (weight (analyze3DModel clip_file) * 0.25) = 125
   \<and> toFixed2 (weight (analyze3DModel clip_file) * 0.25) = to_double 1.25
   \<and> size' gear_file \<le> 50 * 1024 * 1024
   \<and> cents (estimatedWeight (fileSizeMB gear_file) * 0.25) = 987
   \<and> cents (weight (analyze3DModel gear_file) * 0.25) = 988"
proof -
  have small: "size' clip_file \<le> 50 * 1024 * 1024" "size' gear_file \<le> 50 * 1024 * 1024"
    by (simp_all add: clip_file_def gear_file_def)
  have computed: "cents (estimatedWeight (fileSizeMB clip_file) * 0.25) = 126"
    "cents (estimatedWeight (fileSizeMB gear_file) * 0.25) = 987"
    by (simp_all add: fileSizeMB_samples estimatedWeight_def cents_def)
  have returned: "cents (weight (analyze3DModel clip_file) * 0.25) = 125"
    "cents (weight (analyze3DModel gear_file) * 0.25) = 988"
    by (simp_all add: weight_clip_file weight_gear_file to_double_cents_samples cents_def)
  from baseCost_from_computed_weight [of clip_file] small(1)
  have "toFixed2 (weight (analyze3DModel clip_file) * 0.25)
      = to_double (of_int (cents (weight (analyze3DModel clip_file) * 0.25)) / 100)"
    and "\<bar>cents (weight (analyze3DModel clip_file) * 0.25)
          - cents (estimatedWeight (fileSizeMB clip_file) * 0.25)\<bar> \<le> 1"
    by blast+
  then have "toFixed2 (weight (analyze3DModel clip_file) * 0.25) = to_double 1.25"
    using returned(1) by simp
  then show ?thesis
    using small computed returned by (simp add: weight_clip_file baseCost_clip_file)
qed

section \<open>The routes\<close>

lemma parse_delivery_no_address:
  "insertOrderSchema_parse delivery_no_address (req_supportRemoval delivery_no_address = Some ''true'')
     = Inr delivery_validated"
  by (simp add: insertOrderSchema_parse_def insertOrderSchema_issues_def delivery_no_address_def
      delivery_validated_def)

lemma post_orders_no_address:
  assumes "method = ''delivery'' \<or> method = ''meetup''"
  shows "post_orders num_add num_toString sendOrderEmail Map.empty ''a1'' 1000
       (delivery_no_address\<lparr> req_deliveryMethod := Some method \<rparr>) None =
     \<lparr> response = (200, OrderBody (no_address_order method)),
       storage = [''a1'' \<mapsto> no_address_order method],
       errors_logged = (case sendOrderEmail (no_address_order method) None of
                         Sent \<Rightarrow> [] | MailError e \<Rightarrow> [''Failed to send email:'']) \<rparr>"
  using assms
  by (auto simp: post_orders_def insertOrderSchema_parse_def insertOrderSchema_issues_def
      delivery_no_address_def fill_analysis_def createOrder_def no_address_order_def
      or_null_def or_false_def or_string_def Let_def)

lemma post_orders_mail_irrelevant:
  "response (post_orders num_add num_toString sendOrderEmail orders uuid now orderData modelFile) =
   response (post_orders num_add num_toString (\<lambda>order file. Sent) orders uuid now orderData modelFile)
   \<and> storage (post_orders num_add num_toString sendOrderEmail orders uuid now orderData modelFile) =
   storage (post_orders num_add num_toString (\<lambda>order file. Sent) orders uuid now orderData modelFile)"
  by (simp add: post_orders_def Let_def split: sum.splits prod.splits)

lemma post_orders_valid:
  assumes "insertOrderSchema_parse orderData (req_supportRemoval orderData = Some ''true'') = Inr validatedOrder"
  shows "response (post_orders num_add num_toString sendOrderEmail orders uuid now orderData modelFile) =
     (200, OrderBody (fst (createOrder orders uuid now
        (fill_analysis num_add num_toString orderData modelFile validatedOrder))))"
    and "storage (post_orders num_add num_toString sendOrderEmail orders uuid now orderData modelFile) =
     snd (createOrder orders uuid now
        (fill_analysis num_add num_toString orderData modelFile validatedOrder))"
  using assms by (simp_all add: post_orders_def Let_def split: prod.splits)

lemma parse_supportRemoval:
  "insertOrderSchema_parse orderData b = Inr validatedOrder \<Longrightarrow>
   ins_supportRemoval validatedOrder = Some b"
  by (auto simp: insertOrderSchema_parse_def split: option.splits if_splits)

section \<open>Routes: an unknown identifier\<close>

text \<open>
  C9. For every identifier the store does not hold, \<open>getOrder\<close> returns \<open>undefined\<close> (it does
  not throw), and \<open>GET /api/orders/:id\<close> responds 404 with the body
  \<open>{message: "Order not found"}\<close>.
\<close>

theorem unknown_order_not_found:
  assumes "orders i = None"
  shows "getOrder orders i = None
       \<and> get_order_by_id orders i = (404, MessageBody ''Order not found'')"
  using assms by (simp add: get_order_by_id_def getOrder_def)

theorem unknown_order_not_found_witness:
  "[''a1'' \<mapsto> meetup_order] ''zz'' = None
   \<and> getOrder [''a1'' \<mapsto> meetup_order] ''zz'' = None
   \<and> get_order_by_id [''a1'' \<mapsto> meetup_order] ''zz'' = (404, MessageBody ''Order not found'')
   \<and> get_order_by_id [''a1'' \<mapsto> meetup_order] ''a1'' = (200, OrderBody meetup_order)"
proof -
  have absent: "[''a1'' \<mapsto> meetup_order] ''zz'' = None"
    by simp
  show ?thesis
    using unknown_order_not_found [of "[''a1'' \<mapsto> meetup_order]" "''zz''"] absent
    by (simp add: get_order_by_id_def getOrder_def)
qed

section \<open>Routes: the delivery address\<close>

text \<open>
  C2. The claim: a payload with \<open>deliveryMethod = "delivery"\<close> and an empty \<open>streetAddress\<close>
  fails validation with a 400 and nothing is stored, while the same payload with
  \<open>"meetup"\<close> succeeds. What the code does on that payload: \<open>POST /api/orders\<close> answers 200
  with the created order and stores it, with \<open>streetAddress\<close> and \<open>zipCode\<close> null, exactly
  as it does for the meetup payload. The client form's schema rejects the same values with
  the message of its refinement; the server's schema has no such rule.
\<close>

theorem delivery_without_address_is_stored:
  "req_deliveryMethod delivery_no_address = Some ''delivery''
   \<and> req_streetAddress delivery_no_address = Some []
   \<and> response (post_orders num_add num_toString sendOrderEmail Map.empty ''a1'' 1000
        delivery_no_address None) = (200, OrderBody (no_address_order ''delivery''))
   \<and> storage (post_orders num_add num_toString sendOrderEmail Map.empty ''a1'' 1000
        delivery_no_address None) = [''a1'' \<mapsto> no_address_order ''delivery'']
   \<and> deliveryMethod (no_address_order ''delivery'') = ''delivery''
   \<and> streetAddress (no_address_order ''delivery'') = None
   \<and> zipCode (no_address_order ''delivery'') = None
   \<and> response (post_orders num_add num_toString sendOrderEmail Map.empty ''a1'' 1000
        meetup_no_address None) = (200, OrderBody (no_address_order ''meetup''))
   \<and> orderFormSchema_issues delivery_form = [''Address information is required for delivery'']
   \<and> orderFormSchema_issues (delivery_form\<lparr> form_deliveryMethod := Meetup \<rparr>) = []"
proof -
  have same: "delivery_no_address\<lparr> req_deliveryMethod := Some ''delivery'' \<rparr> = delivery_no_address"
    by (simp add: delivery_no_address_def)
  have "post_orders num_add num_toString sendOrderEmail Map.empty ''a1'' 1000 delivery_no_address None =
     \<lparr> response = (200, OrderBody (no_address_order ''delivery'')),
       storage = [''a1'' \<mapsto> no_address_order ''delivery''],
       errors_logged = (case sendOrderEmail (no_address_order ''delivery'') None of
                         Sent \<Rightarrow> [] | MailError e \<Rightarrow> [''Failed to send email:'']) \<rparr>"
    using post_orders_no_address [of "''delivery''" num_add num_toString sendOrderEmail]
    by (simp add: same)
  moreover have "post_orders num_add num_toString sendOrderEmail Map.empty ''a1'' 1000 meetup_no_address None =
     \<lparr> response = (200, OrderBody (no_address_order ''meetup'')),
       storage = [''a1'' \<mapsto> no_address_order ''meetup''],
       errors_logged = (case sendOrderEmail (no_address_order ''meetup'') None of
                         Sent \<Rightarrow> [] | MailError e \<Rightarrow> [''Failed to send email:'']) \<rparr>"
    using post_orders_no_address [of "''meetup''" num_add num_toString sendOrderEmail]
    by (simp add: meetup_no_address_def)
  moreover have "orderFormSchema_issues delivery_form = [''Address information is required for delivery'']"
    and "orderFormSchema_issues (delivery_form\<lparr> form_deliveryMethod := Meetup \<rparr>) = []"
    by (simp_all add: orderFormSchema_issues_def delivery_form_def truthy_def)
  ultimately show ?thesis
    by (simp add: delivery_no_address_def no_address_order_def)
qed

section \<open>Routes: a failing mail collaborator\<close>

text \<open>
  C7. Whenever validation passes, so that the store's create runs, \<open>POST /api/orders\<close>
  responds 200 with the order that is then readable from the store under its identifier,
  and the response and the store are the same as with a mail collaborator that never fails:
  whatever \<open>sendOrderEmail\<close> does, it changes neither.
\<close>

theorem mail_failure_is_swallowed:
  assumes "insertOrderSchema_parse orderData (req_supportRemoval orderData = Some ''true'') = Inr validatedOrder"
  shows "\<exists>order.
      response (post_orders num_add num_toString sendOrderEmail orders uuid now orderData modelFile)
        = (200, OrderBody order)
    \<and> getOrder (storage (post_orders num_add num_toString sendOrderEmail orders uuid now orderData modelFile)) uuid
        = Some order
    \<and> response (post_orders num_add num_toString sendOrderEmail orders uuid now orderData modelFile)
        = response (post_orders num_add num_toString (\<lambda>order file. Sent) orders uuid now orderData modelFile)
    \<and> storage (post_orders num_add num_toString sendOrderEmail orders uuid now orderData modelFile)
        = storage (post_orders num_add num_toString (\<lambda>order file. Sent) orders uuid now orderData modelFile)"
proof -
  let ?filled = "fill_analysis num_add num_toString orderData modelFile validatedOrder"
  let ?order = "fst (createOrder orders uuid now ?filled)"
  have "getOrder (snd (createOrder orders uuid now ?filled)) uuid = Some ?order"
    by (simp add: createOrder_def getOrder_def Let_def)
  then show ?thesis
    using post_orders_valid [OF assms] post_orders_mail_irrelevant
    by metis
qed

theorem mail_failure_is_swallowed_witness:
  "insertOrderSchema_parse delivery_no_address (req_supportRemoval delivery_no_address = Some ''true'')
     = Inr delivery_validated
   \<and> failing_mail (no_address_order ''delivery'') None = MailError ''connection refused''
   \<and> post_orders (+) two_decimals failing_mail Map.empty ''a1'' 1000 delivery_no_address None =
       \<lparr> response = (200, OrderBody (no_address_order ''delivery'')),
         storage = [''a1'' \<mapsto> no_address_order ''delivery''],
         errors_logged = [''Failed to send email:''] \<rparr>
   \<and> getOrder (storage (post_orders (+) two_decimals failing_mail Map.empty ''a1'' 1000
        delivery_no_address None)) ''a1'' = Some (no_address_order ''delivery'')
   \<and> response (post_orders (+) two_decimals (\<lambda>order file. Sent) Map.empty ''a1'' 1000
        delivery_no_address None) = (200, OrderBody (no_address_order ''delivery''))"
proof -
  have same: "delivery_no_address\<lparr> req_deliveryMethod := Some ''delivery'' \<rparr> = delivery_no_address"
    by (simp add: delivery_no_address_def)
  have run: "post_orders (+) two_decimals failing_mail Map.empty ''a1'' 1000 delivery_no_address None =
       \<lparr> response = (200, OrderBody (no_address_order ''delivery'')),
         storage = [''a1'' \<mapsto> no_address_order ''delivery''],
         errors_logged = [''Failed to send email:''] \<rparr>"
    using post_orders_no_address [of "''delivery''" "(+)" two_decimals failing_mail]
    by (simp add: same failing_mail_def)
  from mail_failure_is_swallowed [OF parse_delivery_no_address,
      of "(+)" two_decimals failing_mail Map.empty "''a1''" 1000 None]
  obtain order where
    "response (post_orders (+) two_decimals failing_mail Map.empty ''a1'' 1000 delivery_no_address None)
       = (200, OrderBody order)"
    "getOrder (storage (post_orders (+) two_decimals failing_mail Map.empty ''a1'' 1000
       delivery_no_address None)) ''a1'' = Some order"
    "response (post_orders (+) two_decimals failing_mail Map.empty ''a1'' 1000 delivery_no_address None)
       = response (post_orders (+) two_decimals (\<lambda>order file. Sent) Map.empty ''a1'' 1000
           delivery_no_address None)"
    by blast
  then show ?thesis
    using run parse_delivery_no_address by (simp add: failing_mail_def)
qed

section \<open>Routes: the total cost\<close>

lemma two_decimals_not_empty: "two_decimals x \<noteq> []"
  by (simp add: two_decimals_def Let_def show_nat_not_empty)

lemma two_decimals_samples:
  "two_decimals 35 = ''35''"
  "two_decimals (35 / 4) = ''8.75''"
  "two_decimals 5 = ''5''"
  "two_decimals (55 / 4) = ''13.75''"
  by (simp_all add: two_decimals_def show_nat.simps digit_char_def)

lemma decimal_value_samples:
  "decimal_value ''2.50'' = Some 2.5"
  "decimal_value ''0.01'' = Some 0.01"
  "decimal_value ''8.75'' = Some 8.75"
  "decimal_value ''13.75'' = Some 13.75"
  by (simp_all add: decimal_value_def digit_of_def)

lemma parse_support_request:
  "insertOrderSchema_parse support_request (req_supportRemoval support_request = Some ''true'')
     = Inr (delivery_validated\<lparr> ins_deliveryMethod := ''meetup'', ins_supportRemoval := Some True \<rparr>)"
  by (simp add: insertOrderSchema_parse_def insertOrderSchema_issues_def support_request_def
      meetup_no_address_def delivery_no_address_def delivery_validated_def)

lemma parse_client_priced:
  "insertOrderSchema_parse client_priced (req_supportRemoval client_priced = Some ''true'')
     = Inr (delivery_validated\<lparr> ins_deliveryMethod := ''meetup'', ins_supportRemoval := Some True,
         ins_modelWeight := Some ''10'', ins_printTime := Some ''1h 0m'',
         ins_baseCost := Some ''2.50'', ins_totalCost := Some ''0.01'' \<rparr>)"
  by (simp add: insertOrderSchema_parse_def insertOrderSchema_issues_def client_priced_def
      support_request_def meetup_no_address_def delivery_no_address_def delivery_validated_def)

lemma post_orders_client_priced:
  "post_orders num_add num_toString (\<lambda>order file. Sent) Map.empty ''a1'' 1000 client_priced (Some cube_file) =
     \<lparr> response = (200, OrderBody (priced_order ''10'' ''1h 0m'' ''2.50'' ''5.00'' ''0.01'')),
       storage = [''a1'' \<mapsto> priced_order ''10'' ''1h 0m'' ''2.50'' ''5.00'' ''0.01''],
       errors_logged = [] \<rparr>"
proof -
  have fields: "req_modelWeight client_priced = Some ''10''" "req_printTime client_priced = Some ''1h 0m''"
    "req_baseCost client_priced = Some ''2.50''" "req_totalCost client_priced = Some ''0.01''"
    "req_supportCost client_priced = None"
    by (simp_all add: client_priced_def support_request_def meetup_no_address_def delivery_no_address_def)
  show ?thesis
    by (simp add: post_orders_def parse_client_priced fill_analysis_def fields truthy_def
        createOrder_def delivery_validated_def priced_order_def no_address_order_def cube_file_def
        or_null_def or_false_def or_string_def Let_def)
qed

lemma post_orders_support_request:
  "post_orders (+) two_decimals (\<lambda>order file. Sent) Map.empty ''a1'' 1000 support_request (Some cube_file) =
     \<lparr> response = (200, OrderBody (priced_order ''35'' ''1h 32m'' ''8.75'' ''5'' ''13.75'')),
       storage = [''a1'' \<mapsto> priced_order ''35'' ''1h 32m'' ''8.75'' ''5'' ''13.75''],
       errors_logged = [] \<rparr>"
proof -
  have fields: "req_modelWeight support_request = None"
    by (simp add: support_request_def meetup_no_address_def delivery_no_address_def)
  have name: "originalname cube_file = ''cube.stl''"
    by (simp add: cube_file_def)
  show ?thesis
    by (simp add: post_orders_def parse_support_request fill_analysis_def fields truthy_def
        analyze3DModel_cube_file two_decimals_samples name
        createOrder_def delivery_validated_def priced_order_def no_address_order_def
        or_null_def or_false_def or_string_def Let_def)
qed

text \<open>
  C1, as the claim states it: every order created through \<open>POST /api/orders\<close> has
  \<open>totalCost = baseCost + (5.00 if supportRemoval, else 0.00)\<close>, whatever pricing fields the
  client sent. A payload with support removal that carries \<open>modelWeight\<close>, \<open>printTime\<close>,
  \<open>baseCost = "2.50"\<close> and \<open>totalCost = "0.01"\<close> is stored with these strings: the total
  is 0.01, not 7.50.
\<close>

theorem client_total_cost_is_stored:
  "response (post_orders (+) two_decimals (\<lambda>order file. Sent) Map.empty ''a1'' 1000
      client_priced (Some cube_file))
     = (200, OrderBody (priced_order ''10'' ''1h 0m'' ''2.50'' ''5.00'' ''0.01''))
   \<and> storage (post_orders (+) two_decimals (\<lambda>order file. Sent) Map.empty ''a1'' 1000
      client_priced (Some cube_file)) ''a1''
     = Some (priced_order ''10'' ''1h 0m'' ''2.50'' ''5.00'' ''0.01'')
   \<and> supportRemoval (priced_order ''10'' ''1h 0m'' ''2.50'' ''5.00'' ''0.01'') = Some True
   \<and> baseCost (priced_order ''10'' ''1h 0m'' ''2.50'' ''5.00'' ''0.01'') = Some ''2.50''
   \<and> totalCost (priced_order ''10'' ''1h 0m'' ''2.50'' ''5.00'' ''0.01'') = Some ''0.01''
   \<and> \<not> total_cost_law (priced_order ''10'' ''1h 0m'' ''2.50'' ''5.00'' ''0.01'')"
  by (simp add: post_orders_client_priced total_cost_law_def priced_order_def decimal_value_samples)

text \<open>
  C1, amended. For every order created through \<open>POST /api/orders\<close> with an uploaded file:
  when the payload does not carry all three of \<open>modelWeight\<close>, \<open>printTime\<close> and \<open>baseCost\<close>
  (non-empty), the server estimates, and the stored record has the estimator's base cost
  as \<open>baseCost\<close>, 5 or 0 as \<open>supportCost\<close> according to \<open>supportRemoval\<close>, and their sum as
  \<open>totalCost\<close>, each as \<open>toString\<close> prints it; when the payload carries all three, the
  client's \<open>baseCost\<close> and \<open>totalCost\<close> are stored as sent. (\<open>toString\<close> of a number is never
  the empty string.)
\<close>

theorem server_estimate_total_cost:
  assumes "insertOrderSchema_parse orderData (req_supportRemoval orderData = Some ''true'') = Inr validatedOrder"
    and "\<forall>x. num_toString x \<noteq> []"
  shows "\<exists>order.
      response (post_orders num_add num_toString sendOrderEmail orders uuid now orderData (Some file))
        = (200, OrderBody order)
    \<and> getOrder (storage (post_orders num_add num_toString sendOrderEmail orders uuid now orderData (Some file))) uuid
        = Some order
    \<and> supportRemoval order = Some (req_supportRemoval orderData = Some ''true'')
    \<and> (\<not> (truthy (req_modelWeight orderData) \<and> truthy (req_printTime orderData)
            \<and> truthy (req_baseCost orderData)) \<longrightarrow>
          baseCost order = Some (num_toString (baseCost' (analyze3DModel file)))
        \<and> supportCost order =
            Some (num_toString (if req_supportRemoval orderData = Some ''true'' then 5 else 0))
        \<and> totalCost order =
            Some (num_toString (num_add (baseCost' (analyze3DModel file))
              (if req_supportRemoval orderData = Some ''true'' then 5 else 0))))
    \<and> (truthy (req_modelWeight orderData) \<and> truthy (req_printTime orderData)
          \<and> truthy (req_baseCost orderData) \<longrightarrow>
          baseCost order = req_baseCost orderData
        \<and> totalCost order = or_null (req_totalCost orderData))"
proof -
  let ?b = "req_supportRemoval orderData = Some ''true''"
  let ?client = "truthy (req_modelWeight orderData) \<and> truthy (req_printTime orderData)
      \<and> truthy (req_baseCost orderData)"
  let ?filled = "fill_analysis num_add num_toString orderData (Some file) validatedOrder"
  let ?order = "fst (createOrder orders uuid now ?filled)"
  have flag: "ins_supportRemoval validatedOrder = Some ?b"
    using assms(1) by (rule parse_supportRemoval)
  have printed: "or_null (Some (num_toString x)) = Some (num_toString x)" for x
    using assms(2) by (simp add: or_null_def)
  have printed': "or_string (Some (num_toString x)) d = num_toString x" for x d
    using assms(2) by (simp add: or_string_def)
  have stored: "getOrder (snd (createOrder orders uuid now ?filled)) uuid = Some ?order"
    by (simp add: createOrder_def getOrder_def Let_def)
  have removal: "supportRemoval ?order = Some ?b"
    using flag by (simp add: createOrder_def fill_analysis_def Let_def or_false_def)
  have server: "baseCost ?order = Some (num_toString (baseCost' (analyze3DModel file)))
        \<and> supportCost ?order = Some (num_toString (if ?b then 5 else 0))
        \<and> totalCost ?order =
            Some (num_toString (num_add (baseCost' (analyze3DModel file)) (if ?b then 5 else 0)))"
    if "\<not> ?client"
  proof -
    have "?filled = validatedOrder\<lparr>
        ins_modelFileName := Some (originalname file),
        ins_modelWeight := Some (num_toString (weight (analyze3DModel file))),
        ins_printTime := Some (printTime' (analyze3DModel file)),
        ins_baseCost := Some (num_toString (baseCost' (analyze3DModel file))),
        ins_supportCost := Some (num_toString (if ?b then 5 else 0)),
        ins_totalCost := Some (num_toString (num_add (baseCost' (analyze3DModel file))
          (if ?b then 5 else 0))) \<rparr>"
      unfolding fill_analysis_def option.case if_not_P [OF that] Let_def flag or_false_def
      by simp
    then show ?thesis
      by (simp add: createOrder_def Let_def printed printed')
  qed
  have client: "baseCost ?order = req_baseCost orderData
        \<and> totalCost ?order = or_null (req_totalCost orderData)"
    if "?client"
  proof -
    have "or_null (req_baseCost orderData) = req_baseCost orderData"
      using that by (auto simp: truthy_def or_null_def split: option.splits)
    moreover have "ins_baseCost ?filled = req_baseCost orderData"
      and "ins_totalCost ?filled = req_totalCost orderData"
      unfolding fill_analysis_def option.case if_P [OF that] by simp_all
    ultimately show ?thesis
      by (simp add: createOrder_def Let_def)
  qed
  show ?thesis
    using post_orders_valid [OF assms(1), of num_add num_toString sendOrderEmail orders uuid now "Some file"]
      stored removal server client
    by (intro exI [of _ ?order]) simp
qed

theorem server_estimate_total_cost_witness:
  "insertOrderSchema_parse support_request (req_supportRemoval support_request = Some ''true'')
     = Inr (delivery_validated\<lparr> ins_deliveryMethod := ''meetup'', ins_supportRemoval := Some True \<rparr>)
   \<and> two_decimals 0 \<noteq> []
   \<and> truthy (req_modelWeight support_request) = False
   \<and> baseCost' (analyze3DModel cube_file) = 8.75
   \<and> response (post_orders (+) two_decimals (\<lambda>order file. Sent) Map.empty ''a1'' 1000
        support_request (Some cube_file))
       = (200, OrderBody (priced_order ''35'' ''1h 32m'' ''8.75'' ''5'' ''13.75''))
   \<and> baseCost (priced_order ''35'' ''1h 32m'' ''8.75'' ''5'' ''13.75'') = Some (two_decimals 8.75)
   \<and> totalCost (priced_order ''35'' ''1h 32m'' ''8.75'' ''5'' ''13.75'') = Some (two_decimals (8.75 + 5))
   \<and> total_cost_law (priced_order ''35'' ''1h 32m'' ''8.75'' ''5'' ''13.75'')
   \<and> truthy (req_modelWeight client_priced) \<and> truthy (req_printTime client_priced)
   \<and> truthy (req_baseCost client_priced)
   \<and> response (post_orders (+) two_decimals (\<lambda>order file. Sent) Map.empty ''a1'' 1000
        client_priced (Some cube_file))
       = (200, OrderBody (priced_order ''10'' ''1h 0m'' ''2.50'' ''5.00'' ''0.01''))
   \<and> totalCost (priced_order ''10'' ''1h 0m'' ''2.50'' ''5.00'' ''0.01'') = req_totalCost client_priced"
proof -
  have printer: "\<forall>x. two_decimals x \<noteq> []"
    by (simp add: two_decimals_not_empty)
  have no_weight: "truthy (req_modelWeight support_request) = False"
    by (simp add: support_request_def meetup_no_address_def delivery_no_address_def truthy_def)
  have flag: "(req_supportRemoval support_request = Some ''true'') = True"
    by (simp add: support_request_def)
  have client: "truthy (req_modelWeight client_priced) \<and> truthy (req_printTime client_priced)
      \<and> truthy (req_baseCost client_priced)"
    by (simp add: client_priced_def truthy_def)
  have sent: "req_totalCost client_priced = Some ''0.01''"
    by (simp add: client_priced_def)
  have cost: "baseCost' (analyze3DModel cube_file) = 8.75"
    by (simp add: analyze3DModel_cube_file)
  from server_estimate_total_cost [OF parse_support_request printer,
      of "(+)" "\<lambda>order file. Sent" Map.empty "''a1''" 1000 cube_file]
  obtain order where
    "response (post_orders (+) two_decimals (\<lambda>order file. Sent) Map.empty ''a1'' 1000
        support_request (Some cube_file)) = (200, OrderBody order)"
    and "baseCost order = Some (two_decimals (baseCost' (analyze3DModel cube_file)))
        \<and> totalCost order = Some (two_decimals (baseCost' (analyze3DModel cube_file) + 5))"
    unfolding no_weight flag by auto
  then have estimated:
    "baseCost (priced_order ''35'' ''1h 32m'' ''8.75'' ''5'' ''13.75'') = Some (two_decimals 8.75)"
    "totalCost (priced_order ''35'' ''1h 32m'' ''8.75'' ''5'' ''13.75'') = Some (two_decimals (8.75 + 5))"
    by (simp_all add: post_orders_support_request cost)
  from server_estimate_total_cost [OF parse_client_priced printer,
      of "(+)" "\<lambda>order file. Sent" Map.empty "''a1''" 1000 cube_file]
  obtain order' where
    "response (post_orders (+) two_decimals (\<lambda>order file. Sent) Map.empty ''a1'' 1000
        client_priced (Some cube_file)) = (200, OrderBody order')"
    and "totalCost order' = or_null (req_totalCost client_priced)"
    using client by auto
  then have trusted:
    "totalCost (priced_order ''10'' ''1h 0m'' ''2.50'' ''5.00'' ''0.01'') = req_totalCost client_priced"
    by (simp add: post_orders_client_priced sent or_null_def)
  have law: "total_cost_law (priced_order ''35'' ''1h 32m'' ''8.75'' ''5'' ''13.75'')"
    by (simp add: total_cost_law_def priced_order_def decimal_value_samples)
  show ?thesis
    using parse_support_request printer no_weight cost estimated trusted law client
    by (simp add: post_orders_support_request post_orders_client_priced)
qed

end
